theory Spec2Isabelle
  imports Complex_Main
begin

section \<open>JavaScript numbers\<close>

text \<open>
  The orchestrator (\<^verbatim>\<open>TransactionManager\<close>, transactions.ts) computes with JavaScript
  \<^verbatim>\<open>number\<close>s obtained from \<^verbatim>\<open>parseFloat\<close>. A number is modelled as an exact real,
  one of the two infinities, or NaN; rounding of finite doubles and the sign of zero are
  not modelled. Comparisons with NaN are false and arithmetic on NaN gives NaN, as in
  IEEE 754.
\<close>

datatype jsnum = Num real | PInf | NInf | NaN

fun jneg :: "jsnum \<Rightarrow> jsnum" where
  "jneg (Num a) = Num (- a)"
| "jneg PInf = NInf"
| "jneg NInf = PInf"
| "jneg NaN = NaN"

fun jadd :: "jsnum \<Rightarrow> jsnum \<Rightarrow> jsnum" where
  "jadd NaN _ = NaN"
| "jadd _ NaN = NaN"
| "jadd (Num a) (Num b) = Num (a + b)"
| "jadd PInf NInf = NaN"
| "jadd NInf PInf = NaN"
| "jadd PInf _ = PInf"
| "jadd _ PInf = PInf"
| "jadd NInf _ = NInf"
| "jadd _ NInf = NInf"

definition jsub :: "jsnum \<Rightarrow> jsnum \<Rightarrow> jsnum" where
  "jsub a b = jadd a (jneg b)"

fun jscale :: "real \<Rightarrow> jsnum \<Rightarrow> jsnum" where
  "jscale a (Num b) = Num (a * b)"
| "jscale a NaN = NaN"
| "jscale a PInf = (if a = 0 then NaN else if 0 < a then PInf else NInf)"
| "jscale a NInf = (if a = 0 then NaN else if 0 < a then NInf else PInf)"

fun jmul :: "jsnum \<Rightarrow> jsnum \<Rightarrow> jsnum" where
  "jmul (Num a) y = jscale a y"
| "jmul x (Num b) = jscale b x"
| "jmul NaN _ = NaN"
| "jmul _ NaN = NaN"
| "jmul PInf y = y"
| "jmul NInf y = jneg y"

fun jlt :: "jsnum \<Rightarrow> jsnum \<Rightarrow> bool" where
  "jlt (Num a) (Num b) = (a < b)"
| "jlt NInf (Num _) = True"
| "jlt NInf PInf = True"
| "jlt (Num _) PInf = True"
| "jlt _ _ = False"

definition jgt :: "jsnum \<Rightarrow> jsnum \<Rightarrow> bool" where
  "jgt a b = jlt b a"

definition jle :: "jsnum \<Rightarrow> jsnum \<Rightarrow> bool" where
  "jle a b = (a \<noteq> NaN \<and> b \<noteq> NaN \<and> \<not> jlt b a)"

text \<open>\<^verbatim>\<open>Math.min\<close> and \<^verbatim>\<open>Math.max\<close>: NaN when an argument is NaN.\<close>

definition jmin :: "jsnum \<Rightarrow> jsnum \<Rightarrow> jsnum" where
  "jmin a b = (if a = NaN \<or> b = NaN then NaN else if jlt b a then b else a)"

definition jmax :: "jsnum \<Rightarrow> jsnum \<Rightarrow> jsnum" where
  "jmax a b = (if a = NaN \<or> b = NaN then NaN else if jlt a b then b else a)"

fun isFinite :: "jsnum \<Rightarrow> bool" where
  "isFinite (Num _) = True"
| "isFinite _ = False"

text \<open>\<^verbatim>\<open>ethers.formatEther(wei)\<close> read back as a number: the amount in ether.\<close>

definition etherOf :: "int \<Rightarrow> jsnum" where
  "etherOf wei = Num (real_of_int wei / 10 ^ 18)"

text \<open>\<^verbatim>\<open>ethers.formatUnits(units, decimals)\<close> read back as a number.\<close>

definition unitsOf :: "nat \<Rightarrow> nat \<Rightarrow> jsnum" where
  "unitsOf units decimals = Num (real units / 10 ^ decimals)"

subsection \<open>parseFloat\<close>

text \<open>
  ECMAScript \<^verbatim>\<open>parseFloat\<close>: leading white space is skipped, then the longest prefix that
  is a decimal literal (optional sign, \<^verbatim>\<open>Infinity\<close> or digits with an optional fraction
  and exponent) is converted; when there is no such prefix the result is NaN.
\<close>

definition isWhite :: "char \<Rightarrow> bool" where
  "isWhite c = (of_char c \<in> {9, 10, 11, 12, 13, 32 :: nat})"

definition isDigit :: "char \<Rightarrow> bool" where
  "isDigit c = (48 \<le> (of_char c :: nat) \<and> (of_char c :: nat) \<le> 57)"

definition digitsVal :: "string \<Rightarrow> nat" where
  "digitsVal ds = foldl (\<lambda>a c. 10 * a + (of_char c - 48)) 0 ds"

definition exponentPart :: "string \<Rightarrow> real" where
  "exponentPart r =
     (case r of
        [] \<Rightarrow> 1
      | c # r1 \<Rightarrow>
          if c = CHR ''e'' \<or> c = CHR ''E'' then
            (case r1 of
               [] \<Rightarrow> 1
             | d # r2 \<Rightarrow>
                 if d = CHR ''-'' then
                   (if takeWhile isDigit r2 = [] then 1
                    else 1 / 10 ^ digitsVal (takeWhile isDigit r2))
                 else if d = CHR ''+'' then
                   (if takeWhile isDigit r2 = [] then 1
                    else 10 ^ digitsVal (takeWhile isDigit r2))
                 else
                   (if takeWhile isDigit r1 = [] then 1
                    else 10 ^ digitsVal (takeWhile isDigit r1)))
          else 1)"

definition unsignedLiteral :: "string \<Rightarrow> jsnum" where
  "unsignedLiteral u =
     (if take 8 u = ''Infinity'' then PInf
      else
        (let ip = takeWhile isDigit u;
             r1 = dropWhile isDigit u;
             hasDot = (case r1 of [] \<Rightarrow> False | c # _ \<Rightarrow> c = CHR ''.'');
             fp = (if hasDot then takeWhile isDigit (tl r1) else []);
             r2 = (if hasDot then dropWhile isDigit (tl r1) else r1)
         in if ip = [] \<and> fp = [] then NaN
            else Num ((real (digitsVal ip) + real (digitsVal fp) / 10 ^ length fp)
                        * exponentPart r2)))"

definition parseFloat :: "string \<Rightarrow> jsnum" where
  "parseFloat str =
     (case dropWhile isWhite str of
        [] \<Rightarrow> NaN
      | c # r \<Rightarrow>
          if c = CHR ''-'' then jneg (unsignedLiteral r)
          else if c = CHR ''+'' then unsignedLiteral r
          else unsignedLiteral (c # r))"

text \<open>\<^verbatim>\<open>String.prototype.startsWith\<close>.\<close>

definition startsWith :: "string \<Rightarrow> string \<Rightarrow> bool" where
  "startsWith s p = (take (length p) s = p)"

section \<open>Data model (types.ts)\<close>

record AppConfig =
  tokenAddress :: string
  numWallets :: int
  masterPrivateKey :: string
  targetAddress :: string
  gasAmount :: string
  minPurchaseAmount :: string
  maxPurchaseAmount :: string
  minKeptTokens :: string
  chain :: string
  dex :: string
  rpcUrl :: string

datatype wstatus = Created | Funded | Swapped | Transferred | Completed

text \<open>
  A wallet record of the Ledger. \<open>w_id\<close> is the key the store assigned (keys start at 1;
  0 stands for a missing or falsy \<^verbatim>\<open>id\<close>). The fields \<^verbatim>\<open>createdAt\<close>, \<^verbatim>\<open>ethBalance\<close> and
  \<^verbatim>\<open>tokenBalance\<close> are never read by the orchestrator and are left out.
\<close>

record WalletInfo =
  w_id :: nat
  w_address :: string
  w_encryptedPrivateKey :: string
  w_status :: wstatus

datatype txtype = Fund_transfer | Token_swap | Token_transfer | Eth_transfer

datatype txstatus = Pending | TxSuccess | TxFailed

text \<open>
  A transaction record. \<open>tx_amount\<close> is the number the decimal string \<^verbatim>\<open>amount\<close> denotes;
  \<^verbatim>\<open>timestamp\<close> and \<^verbatim>\<open>gasUsed\<close> are left out.
\<close>

record Transaction =
  tx_id :: nat
  tx_type :: txtype
  tx_fromAddress :: string
  tx_toAddress :: string
  tx_amount :: jsnum
  tx_token :: string
  tx_txHash :: "string option"
  tx_status :: txstatus
  tx_error :: "string option"

datatype level = LvInfo | LvSuccess | LvWarning | LvError

section \<open>Collaborators and state\<close>

text \<open>
  Every awaited call of a collaborator (Ledger, Key Vault, Chain Client, Swap Router) and
  every \<^verbatim>\<open>delay\<close> takes the next answer of the environment. An answer says whether the call
  rejects (one field per kind of collaborator, \<open>Some m\<close> being the message of the error),
  what it returns, and whether the user invoked \<^verbatim>\<open>stopOperation\<close> while the call was
  pending.
\<close>

record answer =
  a_stop :: bool
  a_db_fail :: "string option"
  a_vault_fail :: "string option"
  a_rpc_fail :: "string option"
  a_chain_fail :: "string option"
  a_wei :: nat
  a_gasPrice :: "nat option"
  a_units :: nat
  a_decimals :: nat
  a_address :: string
  a_cipher :: string
  a_hash :: string

text \<open>
  The environment of a run: the answers by call number, the values of \<^verbatim>\<open>Math.random\<close> by
  draw number, \<^verbatim>\<open>ethers.isAddress\<close>, and the address of the wallet that
  \<^verbatim>\<open>new ethers.Wallet(key)\<close> builds (\<open>None\<close> when the constructor throws).
\<close>

record env =
  answers :: "nat \<Rightarrow> answer"
  rand_draw :: "nat \<Rightarrow> real"
  isAddress :: "string \<Rightarrow> bool"
  walletOfKey :: "string \<Rightarrow> string option"

text \<open>Calls that submit something on chain, in the order made.\<close>

datatype submission =
    SubmitTransferETH string string jsnum
  | SubmitSwap string string jsnum
  | SubmitTransferToken string string string jsnum

text \<open>
  The state: the fields of \<^verbatim>\<open>TransactionManager\<close>, the log sink, the stores of the Ledger
  (database.ts: \<^verbatim>\<open>wallets\<close> and \<^verbatim>\<open>transactions\<close> with auto-increment keys, \<^verbatim>\<open>config\<close>), the
  number of answers and of random draws taken so far, the submissions made so far, and
  the encrypted keys passed to \<^verbatim>\<open>loadWallet\<close> so far.
  The status snapshots published through \<^verbatim>\<open>onStatusUpdate\<close> and the activity stamps of the
  watchdog are not modelled.
\<close>

record tm_state =
  isRunning :: bool
  shouldStop :: bool
  watchdogTimer :: bool
  logs :: "(level \<times> string) list"
  wallets_db :: "WalletInfo list"
  walletKeyGen :: nat
  txs_db :: "Transaction list"
  txKeyGen :: nat
  config_db :: "AppConfig option"
  clock :: nat
  draws :: nat
  submitted :: "submission list"
  loaded :: "string list"

text \<open>A computation either throws an \<^verbatim>\<open>Error\<close> (\<open>Inl\<close> of its message) or returns.\<close>

type_synonym 'a M = "tm_state \<Rightarrow> (string + 'a) \<times> tm_state"

definition ret :: "'a \<Rightarrow> 'a M" where
  "ret x s = (Inr x, s)"

definition throw :: "string \<Rightarrow> 'a M" where
  "throw e s = (Inl e, s)"

definition bnd :: "'a M \<Rightarrow> ('a \<Rightarrow> 'b M) \<Rightarrow> 'b M" where
  "bnd m f s = (case m s of (Inl e, s1) \<Rightarrow> (Inl e, s1) | (Inr x, s1) \<Rightarrow> f x s1)"

definition seq :: "'a M \<Rightarrow> 'b M \<Rightarrow> 'b M" where
  "seq m k = bnd m (\<lambda>_. k)"

definition try_catch :: "'a M \<Rightarrow> (string \<Rightarrow> 'a M) \<Rightarrow> 'a M" where
  "try_catch m h s = (case m s of (Inl e, s1) \<Rightarrow> h e s1 | (Inr x, s1) \<Rightarrow> (Inr x, s1))"

definition try_finally :: "'a M \<Rightarrow> (tm_state \<Rightarrow> tm_state) \<Rightarrow> 'a M" where
  "try_finally m f s = (case m s of (r, s1) \<Rightarrow> (r, f s1))"

definition modify :: "(tm_state \<Rightarrow> tm_state) \<Rightarrow> unit M" where
  "modify f s = (Inr (), f s)"

definition log_msg :: "level \<Rightarrow> string \<Rightarrow> unit M" where
  "log_msg lv msg = modify (\<lambda>s. s\<lparr>logs := logs s @ [(lv, msg)]\<rparr>)"

text \<open>\<^verbatim>\<open>stopOperation\<close> and \<^verbatim>\<open>isOperationRunning\<close>.\<close>

definition stopOperation :: "tm_state \<Rightarrow> tm_state" where
  "stopOperation s =
     (if isRunning s
      then s\<lparr>shouldStop := True, logs := logs s @ [(LvWarning, ''Stopping operation...'')]\<rparr>
      else s)"

definition isOperationRunning :: "tm_state \<Rightarrow> bool" where
  "isOperationRunning s = isRunning s"

text \<open>Awaiting: take the next answer; the user may have asked to stop meanwhile.\<close>

definition await :: "env \<Rightarrow> answer M" where
  "await E s =
     (let a = answers E (clock s); s1 = s\<lparr>clock := clock s + 1\<rparr>
      in (Inr a, if a_stop a then stopOperation s1 else s1))"

definition call :: "env \<Rightarrow> (answer \<Rightarrow> string option) \<Rightarrow> answer M" where
  "call E failure =
     bnd (await E) (\<lambda>a. case failure a of Some m \<Rightarrow> throw m | None \<Rightarrow> ret a)"

definition delay :: "env \<Rightarrow> unit M" where
  "delay E = bnd (await E) (\<lambda>_. ret ())"

section \<open>Allocation planner\<close>

text \<open>
  The loop of \<^verbatim>\<open>generateRandomAllocations\<close> (step 3): \<open>k\<close> iterations are left, \<open>i\<close> is the
  loop index, the triple holds \<^verbatim>\<open>allocations\<close>, \<^verbatim>\<open>remaining\<close> and the number of random draws
  made so far.
\<close>

fun distributeRemaining ::
  "(nat \<Rightarrow> real) \<Rightarrow> jsnum \<Rightarrow> jsnum \<Rightarrow> nat \<Rightarrow> nat \<Rightarrow> jsnum list \<times> jsnum \<times> nat
     \<Rightarrow> jsnum list \<times> jsnum \<times> nat" where
  "distributeRemaining rnd minAmount maxAmount 0 i st = st"
| "distributeRemaining rnd minAmount maxAmount (Suc k) i (allocations, remaining, g) =
     (let maxCanAdd = jsub maxAmount minAmount;
          maxSafeAdd = jmin maxCanAdd remaining
      in if jgt maxSafeAdd (Num 0) then
           (let add = jmul (Num (rnd g)) maxSafeAdd
            in distributeRemaining rnd minAmount maxAmount k (i + 1)
                 (allocations[i := jadd (allocations ! i) add], jsub remaining add, g + 1))
         else distributeRemaining rnd minAmount maxAmount k (i + 1) (allocations, remaining, g))"

text \<open>
  \<^verbatim>\<open>generateRandomAllocations\<close>. \<^verbatim>\<open>new Array(n)\<close> throws a RangeError for a negative length;
  for \<open>n = 0\<close> the final \<^verbatim>\<open>allocations[-1] += toAdd\<close> sets a property and leaves the (empty)
  array as it is. The numbers interpolated into messages are left out of the model.
\<close>

definition generateRandomAllocations ::
  "env \<Rightarrow> int \<Rightarrow> jsnum \<Rightarrow> jsnum \<Rightarrow> jsnum \<Rightarrow> jsnum list M" where
  "generateRandomAllocations E n totalAvailable minAmount maxAmount =
     (let minRequired = jmul (Num (of_int n)) minAmount;
          maxPossible = jmul (Num (of_int n)) maxAmount
      in if jlt totalAvailable minRequired then throw ''Insufficient funds for allocation''
         else
           seq (if jgt totalAvailable maxPossible
                then log_msg LvWarning ''Available funds exceed maximum allocation''
                else ret ())
               (if n < 0 then throw ''Invalid array length''
                else (\<lambda>s.
                  (let allocations = replicate (nat n) minAmount;
                       remaining = jsub totalAvailable minRequired;
                       st = distributeRemaining (rand_draw E) minAmount maxAmount (nat n - 1) 0
                              (allocations, remaining, draws s);
                       lastWalletMax = jsub maxAmount minAmount;
                       toAdd = jmin lastWalletMax (fst (snd st));
                       final = (if n = 0 then fst st
                                else (fst st)[nat n - 1 := jadd (fst st ! (nat n - 1)) toAdd])
                   in (Inr final, s\<lparr>draws := snd (snd st)\<rparr>)))))"

section \<open>Ledger (database.ts)\<close>

text \<open>
  \<^verbatim>\<open>saveWallet\<close> and \<^verbatim>\<open>saveTransaction\<close> add a record under the next auto-increment key;
  \<^verbatim>\<open>updateWallet\<close> and \<^verbatim>\<open>updateTransaction\<close> reject when no record has the key and
  otherwise overwrite the given fields. Every call can also reject for reasons of the
  store itself (\<open>a_db_fail\<close>).
\<close>

definition saveWallet :: "env \<Rightarrow> WalletInfo \<Rightarrow> nat M" where
  "saveWallet E info =
     bnd (call E a_db_fail) (\<lambda>_ s.
       (let k = walletKeyGen s + 1
        in (Inr k, s\<lparr>walletKeyGen := k, wallets_db := wallets_db s @ [info\<lparr>w_id := k\<rparr>]\<rparr>)))"

definition getWallet :: "env \<Rightarrow> nat \<Rightarrow> WalletInfo option M" where
  "getWallet E k =
     bnd (call E a_db_fail) (\<lambda>_ s. (Inr (find (\<lambda>w. w_id w = k) (wallets_db s)), s))"

definition getAllWallets :: "env \<Rightarrow> WalletInfo list M" where
  "getAllWallets E = bnd (call E a_db_fail) (\<lambda>_ s. (Inr (wallets_db s), s))"

definition setStatus :: "nat \<Rightarrow> wstatus \<Rightarrow> WalletInfo list \<Rightarrow> WalletInfo list" where
  "setStatus k st ws = map (\<lambda>w. if w_id w = k then w\<lparr>w_status := st\<rparr> else w) ws"

definition updateWallet :: "env \<Rightarrow> nat \<Rightarrow> wstatus \<Rightarrow> unit M" where
  "updateWallet E k st =
     bnd (call E a_db_fail) (\<lambda>_ s.
       if find (\<lambda>w. w_id w = k) (wallets_db s) = None then (Inl ''Wallet not found'', s)
       else (Inr (), s\<lparr>wallets_db := setStatus k st (wallets_db s)\<rparr>))"

definition saveTransaction :: "env \<Rightarrow> Transaction \<Rightarrow> nat M" where
  "saveTransaction E tx =
     bnd (call E a_db_fail) (\<lambda>_ s.
       (let k = txKeyGen s + 1
        in (Inr k, s\<lparr>txKeyGen := k, txs_db := txs_db s @ [tx\<lparr>tx_id := k\<rparr>]\<rparr>)))"

definition updateTransaction :: "env \<Rightarrow> nat \<Rightarrow> (Transaction \<Rightarrow> Transaction) \<Rightarrow> unit M" where
  "updateTransaction E k updates =
     bnd (call E a_db_fail) (\<lambda>_ s.
       if find (\<lambda>t. tx_id t = k) (txs_db s) = None then (Inl ''Transaction not found'', s)
       else (Inr (), s\<lparr>txs_db :=
               map (\<lambda>t. if tx_id t = k then updates t else t) (txs_db s)\<rparr>))"

definition getConfig :: "env \<Rightarrow> AppConfig option M" where
  "getConfig E = bnd (call E a_db_fail) (\<lambda>_ s. (Inr (config_db s), s))"

text \<open>The two updates the orchestrator writes to a transaction record.\<close>

definition markSuccess :: "string \<Rightarrow> Transaction \<Rightarrow> Transaction" where
  "markSuccess h t = t\<lparr>tx_status := TxSuccess, tx_txHash := Some h\<rparr>"

definition markFailed :: "string \<Rightarrow> Transaction \<Rightarrow> Transaction" where
  "markFailed m t = t\<lparr>tx_status := TxFailed, tx_error := Some m\<rparr>"

definition pendingTx ::
  "txtype \<Rightarrow> string \<Rightarrow> string \<Rightarrow> jsnum \<Rightarrow> string \<Rightarrow> Transaction" where
  "pendingTx ty src dst amount token =
     \<lparr>tx_id = 0, tx_type = ty, tx_fromAddress = src, tx_toAddress = dst, tx_amount = amount,
      tx_token = token, tx_txHash = None, tx_status = Pending, tx_error = None\<rparr>"

section \<open>Wallet service (wallet.ts), chain client and swap router (dex.ts)\<close>

text \<open>
  A wallet object is represented by its address. The password is passed on as in the
  source; whether encryption or decryption succeeds is the vault's answer.
\<close>

definition submit :: "submission \<Rightarrow> unit M" where
  "submit x = modify (\<lambda>s. s\<lparr>submitted := submitted s @ [x]\<rparr>)"

definition createWallet :: "env \<Rightarrow> string \<Rightarrow> (string \<times> WalletInfo) M" where
  "createWallet E password =
     bnd (call E a_vault_fail) (\<lambda>a.
       ret (a_address a,
            \<lparr>w_id = 0, w_address = a_address a, w_encryptedPrivateKey = a_cipher a,
             w_status = Created\<rparr>))"

definition loadWallet :: "env \<Rightarrow> string \<Rightarrow> string \<Rightarrow> string M" where
  "loadWallet E encryptedPrivateKey password =
     seq (modify (\<lambda>s. s\<lparr>loaded := loaded s @ [encryptedPrivateKey]\<rparr>))
         (bnd (call E a_vault_fail) (\<lambda>a. ret (a_address a)))"

text \<open>The balance in wei (\<^verbatim>\<open>provider.getBalance\<close>, which \<^verbatim>\<open>walletService.getBalance\<close> formats).\<close>

definition getBalance :: "env \<Rightarrow> string \<Rightarrow> int M" where
  "getBalance E address = bnd (call E a_rpc_fail) (\<lambda>a. ret (int (a_wei a)))"

definition getTokenBalance :: "env \<Rightarrow> string \<Rightarrow> string \<Rightarrow> jsnum M" where
  "getTokenBalance E token address =
     bnd (call E a_rpc_fail) (\<lambda>a. ret (unitsOf (a_units a) (a_decimals a)))"

text \<open>
  \<^verbatim>\<open>getFeeData\<close> followed by \<^verbatim>\<open>feeData.gasPrice || ethers.parseUnits('0.1', 'gwei')\<close>: a null
  or zero gas price is replaced by 0.1 gwei.
\<close>

definition gasPriceOf :: "answer \<Rightarrow> int" where
  "gasPriceOf a =
     (case a_gasPrice a of
        None \<Rightarrow> 100000000
      | Some p \<Rightarrow> if p = 0 then 100000000 else int p)"

definition getGasPrice :: "env \<Rightarrow> int M" where
  "getGasPrice E = bnd (call E a_rpc_fail) (\<lambda>a. ret (gasPriceOf a))"

text \<open>
  Submissions. Each converts the amount with \<^verbatim>\<open>ethers.parseEther\<close> or \<^verbatim>\<open>parseUnits\<close>, which
  throw for \<^verbatim>\<open>NaN\<close> and \<^verbatim>\<open>Infinity\<close>; otherwise the outcome is the collaborator's answer.
\<close>

definition transferETH :: "env \<Rightarrow> string \<Rightarrow> string \<Rightarrow> jsnum \<Rightarrow> string M" where
  "transferETH E src dst amount =
     seq (submit (SubmitTransferETH src dst amount))
         (if isFinite amount then bnd (call E a_chain_fail) (\<lambda>a. ret (a_hash a))
          else throw ''Failed to transfer ETH'')"

definition transferToken :: "env \<Rightarrow> string \<Rightarrow> string \<Rightarrow> string \<Rightarrow> jsnum \<Rightarrow> string M" where
  "transferToken E src token dst amount =
     seq (submit (SubmitTransferToken src token dst amount))
         (if isFinite amount then bnd (call E a_chain_fail) (\<lambda>a. ret (a_hash a))
          else throw ''Failed to transfer tokens'')"

definition swapETHToToken :: "env \<Rightarrow> string \<Rightarrow> string \<Rightarrow> jsnum \<Rightarrow> string M" where
  "swapETHToToken E src token amount =
     seq (submit (SubmitSwap src token amount))
         (if isFinite amount then bnd (call E a_chain_fail) (\<lambda>a. ret (a_hash a))
          else throw ''invalid FixedNumber string value'')"

section \<open>Operation orchestrator (transactions.ts)\<close>

subsection \<open>Validation\<close>

definition validateConfig :: "env \<Rightarrow> AppConfig \<Rightarrow> unit M" where
  "validateConfig E config =
     (if \<not> isAddress E (tokenAddress config) then throw ''Invalid token address''
      else if \<not> isAddress E (targetAddress config) then throw ''Invalid target address''
      else if numWallets config < 1 \<or> numWallets config > 1000
        then throw ''Number of wallets must be between 1 and 1000''
      else if jle (parseFloat (gasAmount config)) (Num 0)
        then throw ''Gas amount must be greater than 0''
      else if jle (parseFloat (minPurchaseAmount config)) (Num 0)
        then throw ''Minimum purchase amount must be greater than 0''
      else if jle (parseFloat (maxPurchaseAmount config)) (Num 0)
        then throw ''Maximum purchase amount must be greater than 0''
      else if jgt (parseFloat (minPurchaseAmount config)) (parseFloat (maxPurchaseAmount config))
        then throw ''Minimum purchase amount cannot exceed maximum purchase amount''
      else if jlt (parseFloat (minKeptTokens config)) (Num 0)
        then throw ''Minimum kept tokens cannot be negative''
      else if \<not> startsWith (rpcUrl config) ''http'' then throw ''Invalid RPC URL''
      else ret ())"

subsection \<open>Watchdog\<close>

text \<open>Only the timer handle and the log lines; the periodic check itself is timing.\<close>

definition startWatchdog :: "tm_state \<Rightarrow> tm_state" where
  "startWatchdog s =
     s\<lparr>watchdogTimer := True, logs := logs s @ [(LvInfo, ''Watchdog started'')]\<rparr>"

definition stopWatchdog :: "tm_state \<Rightarrow> tm_state" where
  "stopWatchdog s =
     (if watchdogTimer s
      then s\<lparr>watchdogTimer := False, logs := logs s @ [(LvInfo, ''Watchdog stopped'')]\<rparr>
      else s)"

subsection \<open>The per-wallet loops\<close>

text \<open>An entry of the in-memory array \<^verbatim>\<open>wallets\<close>: the wallet, its Ledger key, its allocation.\<close>

record mem_wallet =
  m_address :: string
  m_dbId :: nat
  m_purchaseAmount :: jsnum

text \<open>
  The wallet-creation loop (step 3): \<open>k\<close> iterations are left, \<open>i\<close> is the loop index.
  The index is below the length of \<^verbatim>\<open>purchaseAllocations\<close> whenever the loop is entered
  from \<^verbatim>\<open>executeOperation\<close>; outside that range JavaScript reads \<^verbatim>\<open>undefined\<close>.
\<close>

definition createStep :: "env \<Rightarrow> string \<Rightarrow> jsnum list \<Rightarrow> nat \<Rightarrow> mem_wallet M" where
  "createStep E password purchaseAllocations i =
     bnd (createWallet E password) (\<lambda>(wallet, info).
     bnd (saveWallet E info) (\<lambda>dbId.
     seq (log_msg LvInfo ''Created wallet'')
    (seq (delay E)
         (ret \<lparr>m_address = wallet, m_dbId = dbId,
               m_purchaseAmount =
                 (if i < length purchaseAllocations then purchaseAllocations ! i else NaN)\<rparr>))))"

fun createLoop ::
  "env \<Rightarrow> string \<Rightarrow> jsnum list \<Rightarrow> nat \<Rightarrow> nat \<Rightarrow> mem_wallet list \<Rightarrow> mem_wallet list M" where
  "createLoop E password purchaseAllocations 0 i wallets s = (Inr wallets, s)"
| "createLoop E password purchaseAllocations (Suc k) i wallets s =
     (if shouldStop s then bnd (log_msg LvWarning ''Operation stopped by user'') (\<lambda>_. ret wallets) s
      else
        (case createStep E password purchaseAllocations i s of
           (Inl e, s1) \<Rightarrow> (Inl e, s1)
         | (Inr w, s1) \<Rightarrow> createLoop E password purchaseAllocations k (i + 1) (wallets @ [w]) s1))"

text \<open>
  The loops of steps 4 to 6 have one shape: \<^verbatim>\<open>if (this.shouldStop) break;\<close> at the top of
  each iteration, then the body for the wallet.
\<close>

fun walletLoop :: "(mem_wallet \<Rightarrow> unit M) \<Rightarrow> mem_wallet list \<Rightarrow> unit M" where
  "walletLoop body [] s = (Inr (), s)"
| "walletLoop body (w # ws) s =
     (if shouldStop s then (Inr (), s)
      else
        (case body w s of
           (Inl e, s1) \<Rightarrow> (Inl e, s1)
         | (Inr _, s1) \<Rightarrow> walletLoop body ws s1))"

text \<open>Step 4, one iteration: fund a wallet from the master wallet.\<close>

definition fundStep :: "env \<Rightarrow> string \<Rightarrow> jsnum \<Rightarrow> mem_wallet \<Rightarrow> unit M" where
  "fundStep E master gas w =
     (let amountToSend = jadd gas (m_purchaseAmount w)
      in seq (try_catch
                (seq (log_msg LvInfo ''Funding wallet'')
                (bnd (saveTransaction E
                        (pendingTx Fund_transfer master (m_address w) amountToSend ''ETH'')) (\<lambda>txId.
                 bnd (transferETH E master (m_address w) amountToSend) (\<lambda>receipt.
                 seq (updateTransaction E txId (markSuccess receipt))
                (seq (updateWallet E (m_dbId w) Funded)
                     (log_msg LvSuccess ''Funded wallet''))))))
                (\<lambda>error.
                   seq (log_msg LvError ''Failed to fund wallet'')
                       (updateWallet E (m_dbId w) Created)))
             (delay E))"

text \<open>
  Step 5, one iteration. The body of the \<^verbatim>\<open>try\<close> returns \<open>False\<close> where the source says
  \<^verbatim>\<open>continue\<close> (which also skips the delay at the end of the iteration).
\<close>

definition swapStep :: "env \<Rightarrow> AppConfig \<Rightarrow> mem_wallet \<Rightarrow> unit M" where
  "swapStep E config w =
     bnd (try_catch
            (bnd (getBalance E (m_address w)) (\<lambda>actualBalance.
             bnd (getGasPrice E) (\<lambda>gasPrice.
               (let swapGasLimit = 500000;
                    gasReserveWei = swapGasLimit * gasPrice * 150 div 100;
                    availableForSwapWei = actualBalance - gasReserveWei;
                    availableForSwap = etherOf availableForSwapWei;
                    actualSwapAmount = jmin (m_purchaseAmount w) (jmax (Num 0) availableForSwap)
                in if jle actualSwapAmount (Num 0)
                   then seq (log_msg LvError ''Insufficient balance for swap after gas'')
                            (ret False)
                   else
                     seq (log_msg LvInfo ''Swapping ETH for tokens in wallet'')
                    (bnd (saveTransaction E
                            (pendingTx Token_swap (m_address w) (m_address w) actualSwapAmount
                               (tokenAddress config))) (\<lambda>txId.
                     bnd (swapETHToToken E (m_address w) (tokenAddress config) actualSwapAmount)
                       (\<lambda>swapResult.
                     seq (updateTransaction E txId (markSuccess swapResult))
                    (seq (updateWallet E (m_dbId w) Swapped)
                    (seq (log_msg LvSuccess ''Swapped in wallet'')
                         (ret True))))))))))
            (\<lambda>error. seq (log_msg LvError ''Failed to swap in wallet'') (ret True)))
         (\<lambda>reachedEnd. if reachedEnd then delay E else ret ())"

text \<open>Step 6, one iteration: the token transfer, then the ETH transfer, then the status.\<close>

definition consolidateTokens :: "env \<Rightarrow> AppConfig \<Rightarrow> string \<Rightarrow> jsnum \<Rightarrow> unit M" where
  "consolidateTokens E config wallet tokenBalanceNum =
     (let minKept = parseFloat (minKeptTokens config);
          tokensToTransfer = jsub tokenBalanceNum minKept
      in if jgt tokensToTransfer (Num (1 / 10 ^ 6)) then
           bnd (saveTransaction E
                  (pendingTx Token_transfer wallet (targetAddress config) tokensToTransfer
                     (tokenAddress config))) (\<lambda>txId.
             try_catch
               (bnd (transferToken E wallet (tokenAddress config) (targetAddress config)
                       tokensToTransfer) (\<lambda>receipt.
                seq (updateTransaction E txId (markSuccess receipt))
                    (log_msg LvSuccess ''Transferred tokens'')))
               (\<lambda>error.
                  seq (updateTransaction E txId (markFailed error))
                      (log_msg LvWarning ''Token transfer failed'')))
         else log_msg LvInfo ''Skipping token transfer'')"

definition consolidateETH :: "env \<Rightarrow> AppConfig \<Rightarrow> string \<Rightarrow> int \<Rightarrow> unit M" where
  "consolidateETH E config wallet ethBalanceWei =
     (if ethBalanceWei > 10000000000000 then
        bnd (getGasPrice E) (\<lambda>gasPrice.
          (let gasLimit = 21000;
               maxGasCostWei = gasLimit * gasPrice * 2;
               transferWei = ethBalanceWei - maxGasCostWei
           in if transferWei > 0 then
                bnd (saveTransaction E
                       (pendingTx Eth_transfer wallet (targetAddress config) (etherOf transferWei)
                          ''ETH'')) (\<lambda>txId.
                bnd (transferETH E wallet (targetAddress config) (etherOf transferWei)) (\<lambda>receipt.
                seq (updateTransaction E txId (markSuccess receipt))
                    (log_msg LvSuccess ''Transferred ETH'')))
              else log_msg LvWarning ''Insufficient ETH after gas reserve''))
      else ret ())"

definition transferStep :: "env \<Rightarrow> AppConfig \<Rightarrow> mem_wallet \<Rightarrow> unit M" where
  "transferStep E config w =
     seq (try_catch
            (seq (log_msg LvInfo ''Transferring from wallet'')
            (bnd (getTokenBalance E (tokenAddress config) (m_address w)) (\<lambda>tokenBalanceNum.
             seq (consolidateTokens E config (m_address w) tokenBalanceNum)
            (bnd (getBalance E (m_address w)) (\<lambda>ethBalanceWei.
             seq (consolidateETH E config (m_address w) ethBalanceWei)
                 (updateWallet E (m_dbId w) Completed))))))
            (\<lambda>error.
               seq (log_msg LvError ''Failed to transfer from wallet'')
                   (try_catch (updateWallet E (m_dbId w) Completed)
                      (\<lambda>dbError. log_msg LvError ''Failed to update wallet status''))))
         (delay E)"

subsection \<open>Cleanup sweep\<close>

text \<open>
  One iteration of the loop of \<^verbatim>\<open>cleanupAndConsolidateFunds\<close>. As in \<open>swapStep\<close>, \<open>False\<close>
  stands for \<^verbatim>\<open>continue\<close>. A failed token-balance query leaves \<^verbatim>\<open>tokenBalance = '0'\<close>.
\<close>

definition cleanupTokens :: "env \<Rightarrow> AppConfig \<Rightarrow> string \<Rightarrow> jsnum \<Rightarrow> unit M" where
  "cleanupTokens E config wallet tokenBalanceNum =
     (if jgt tokenBalanceNum (Num 0) then
        (let minKept = parseFloat (minKeptTokens config);
             tokensToTransfer = jsub tokenBalanceNum minKept
         in if jgt tokensToTransfer (Num 0) then
              try_catch
                (bnd (saveTransaction E
                        (pendingTx Token_transfer wallet (targetAddress config) tokensToTransfer
                           (tokenAddress config))) (\<lambda>txId.
                 bnd (transferToken E wallet (tokenAddress config) (targetAddress config)
                        tokensToTransfer) (\<lambda>receipt.
                 seq (updateTransaction E txId (markSuccess receipt))
                     (log_msg LvSuccess ''Cleanup: Transferred tokens''))))
                (\<lambda>error. log_msg LvError ''Failed to transfer tokens'')
            else ret ())
      else ret ())"

definition cleanupETH :: "env \<Rightarrow> AppConfig \<Rightarrow> string \<Rightarrow> jsnum \<Rightarrow> unit M" where
  "cleanupETH E config wallet ethBalanceNum =
     (let gasBuffer = Num (1 / 10 ^ 4);
          ethToTransfer = jsub ethBalanceNum gasBuffer
      in if jgt ethToTransfer (Num (1 / 10 ^ 4)) then
           try_catch
             (seq (log_msg LvInfo ''Attempting to transfer ETH'')
             (bnd (saveTransaction E
                     (pendingTx Eth_transfer wallet (targetAddress config) ethToTransfer ''ETH''))
                (\<lambda>txId.
              bnd (transferETH E wallet (targetAddress config) ethToTransfer) (\<lambda>receipt.
              seq (updateTransaction E txId (markSuccess receipt))
                  (log_msg LvSuccess ''Cleanup: Transferred ETH'')))))
             (\<lambda>error. log_msg LvError ''Failed to transfer ETH'')
         else log_msg LvInfo ''Wallet has insufficient ETH for transfer after gas'')"

definition cleanupStep :: "env \<Rightarrow> AppConfig \<Rightarrow> string \<Rightarrow> WalletInfo \<Rightarrow> unit M" where
  "cleanupStep E config password walletInfo =
     bnd (try_catch
            (if w_status walletInfo = Completed then ret False
             else
               bnd (loadWallet E (w_encryptedPrivateKey walletInfo) password) (\<lambda>wallet.
               bnd (getBalance E wallet) (\<lambda>ethBalance.
               bnd (try_catch (getTokenBalance E (tokenAddress config) wallet)
                      (\<lambda>error. ret (Num 0))) (\<lambda>tokenBalanceNum.
               seq (log_msg LvInfo ''Wallet balances'')
              (seq (cleanupTokens E config wallet tokenBalanceNum)
              (seq (cleanupETH E config wallet (etherOf ethBalance))
              (seq (if w_id walletInfo \<noteq> 0 then updateWallet E (w_id walletInfo) Completed
                    else ret ())
                   (ret True))))))))
            (\<lambda>error. seq (log_msg LvError ''Cleanup error for wallet'') (ret True)))
         (\<lambda>reachedEnd. if reachedEnd then delay E else ret ())"

fun cleanupLoop :: "env \<Rightarrow> AppConfig \<Rightarrow> string \<Rightarrow> WalletInfo list \<Rightarrow> unit M" where
  "cleanupLoop E config password [] s = (Inr (), s)"
| "cleanupLoop E config password (walletInfo # rest) s =
     (case cleanupStep E config password walletInfo s of
        (Inl e, s1) \<Rightarrow> (Inl e, s1)
      | (Inr _, s1) \<Rightarrow> cleanupLoop E config password rest s1)"

definition cleanupAndConsolidateFunds :: "env \<Rightarrow> AppConfig \<Rightarrow> string \<Rightarrow> unit M" where
  "cleanupAndConsolidateFunds E config password =
     seq (log_msg LvInfo ''Starting cleanup and fund consolidation...'')
    (bnd (getAllWallets E) (\<lambda>allWallets.
       if allWallets = [] then log_msg LvInfo ''No wallets to clean up''
       else
         seq (log_msg LvInfo ''Found wallets to check for funds'')
        (seq (cleanupLoop E config password allWallets)
             (log_msg LvSuccess ''Cleanup and consolidation completed''))))"

subsection \<open>executeOperation\<close>

text \<open>
  The rest of the \<^verbatim>\<open>try\<close> block from the check after each loop onwards: \<open>afterSwap\<close> is the
  code from the check that follows the swap loop, \<open>afterFund\<close> from the check that follows
  the funding loop, \<open>afterCreate\<close> from the check that follows the creation loop.
\<close>

definition stopReturn :: "unit M" where
  "stopReturn = modify (\<lambda>s. s\<lparr>isRunning := False\<rparr>)"

definition afterSwap :: "env \<Rightarrow> AppConfig \<Rightarrow> mem_wallet list \<Rightarrow> unit M" where
  "afterSwap E config wallets s =
     (if shouldStop s then stopReturn s
      else
        seq (log_msg LvInfo ''Transferring tokens to target address...'')
       (seq (walletLoop (transferStep E config) wallets)
            (log_msg LvSuccess ''Mass token buy operation completed successfully!'')) s)"

definition afterFund :: "env \<Rightarrow> AppConfig \<Rightarrow> mem_wallet list \<Rightarrow> unit M" where
  "afterFund E config wallets s =
     (if shouldStop s then stopReturn s
      else
        seq (log_msg LvInfo ''Swapping ETH for tokens...'')
       (seq (walletLoop (swapStep E config) wallets)
            (afterSwap E config wallets)) s)"

definition afterCreate ::
  "env \<Rightarrow> AppConfig \<Rightarrow> string \<Rightarrow> jsnum \<Rightarrow> mem_wallet list \<Rightarrow> unit M" where
  "afterCreate E config master gas wallets s =
     (if shouldStop s then stopReturn s
      else
        seq (log_msg LvInfo ''Funding wallets with ETH...'')
       (seq (walletLoop (fundStep E master gas) wallets)
            (afterFund E config wallets)) s)"

text \<open>
  The \<^verbatim>\<open>try\<close> block. \<^verbatim>\<open>dexService.updateConfig\<close> only stores its arguments and is left out;
  \<^verbatim>\<open>reduce\<close> sums the allocations from 0.
\<close>

definition operationBody :: "env \<Rightarrow> AppConfig \<Rightarrow> string \<Rightarrow> unit M" where
  "operationBody E config password =
     seq (log_msg LvInfo ''Starting mass token buy operation'')
    (seq (log_msg LvInfo ''Validating configuration...'')
    (seq (validateConfig E config)
    (seq (log_msg LvInfo ''Using dex on chain'')
    (seq (log_msg LvInfo ''Loading master wallet...'')
         (case walletOfKey E (masterPrivateKey config) of
            None \<Rightarrow> throw ''Failed to load wallet from private key''
          | Some master \<Rightarrow>
              bnd (getBalance E master) (\<lambda>masterBalance.
              seq (log_msg LvSuccess ''Master wallet loaded'')
                (let gas = parseFloat (gasAmount config);
                     minPurchase = parseFloat (minPurchaseAmount config);
                     maxPurchase = parseFloat (maxPurchaseAmount config);
                     availableBalance = etherOf masterBalance;
                     totalGasNeeded = jmul gas (Num (of_int (numWallets config)));
                     availableForPurchases = jsub availableBalance totalGasNeeded
                 in bnd (generateRandomAllocations E (numWallets config) availableForPurchases
                           minPurchase maxPurchase) (\<lambda>purchaseAllocations.
                      (let totalPurchaseAmount = foldl jadd (Num 0) purchaseAllocations;
                           totalETHNeeded = jadd totalGasNeeded totalPurchaseAmount
                       in if jgt totalETHNeeded availableBalance then throw ''Insufficient balance''
                          else
                            seq (log_msg LvInfo ''Creating wallets...'')
                           (bnd (createLoop E password purchaseAllocations
                                   (nat (numWallets config)) 0 [])
                              (afterCreate E config master gas)))))))))))"

text \<open>
  The \<^verbatim>\<open>catch\<close> block: log, attempt the cleanup sweep (its own failure is only logged),
  rethrow the error caught.
\<close>

definition sweepAttempt :: "env \<Rightarrow> AppConfig \<Rightarrow> string \<Rightarrow> unit M" where
  "sweepAttempt E config password =
     try_catch (cleanupAndConsolidateFunds E config password)
       (\<lambda>cleanupError. log_msg LvError ''Cleanup failed'')"

definition operationFailed :: "env \<Rightarrow> AppConfig \<Rightarrow> string \<Rightarrow> string \<Rightarrow> unit M" where
  "operationFailed E config password error =
     seq (log_msg LvError ''Operation failed'')
    (seq (sweepAttempt E config password)
         (throw error))"

text \<open>
  The statements before the \<^verbatim>\<open>try\<close> (after the guard) and the \<^verbatim>\<open>finally\<close> block.
\<close>

definition beginRun :: "tm_state \<Rightarrow> tm_state" where
  "beginRun s = startWatchdog (s\<lparr>isRunning := True, shouldStop := False\<rparr>)"

definition endRun :: "tm_state \<Rightarrow> tm_state" where
  "endRun s = (stopWatchdog s)\<lparr>isRunning := False\<rparr>"

definition executeOperation :: "env \<Rightarrow> AppConfig \<Rightarrow> string \<Rightarrow> unit M" where
  "executeOperation E config password s =
     (if isRunning s then (Inl ''Operation is already running'', s)
      else
        try_finally
          (try_catch (operationBody E config password) (operationFailed E config password))
          endRun (beginRun s))"

subsection \<open>transferBackFromWallet\<close>

definition backTokens :: "env \<Rightarrow> AppConfig \<Rightarrow> string \<Rightarrow> string \<Rightarrow> jsnum \<Rightarrow> unit M" where
  "backTokens E config wallet target tokenBalanceNum =
     (let minKept = parseFloat (minKeptTokens config);
          tokensToTransfer = jsub tokenBalanceNum minKept
      in if jgt tokensToTransfer (Num (1 / 10 ^ 6)) then
           seq (log_msg LvInfo ''Transferring tokens'')
          (bnd (saveTransaction E
                  (pendingTx Token_transfer wallet target tokensToTransfer (tokenAddress config)))
             (\<lambda>txId.
             try_catch
               (bnd (transferToken E wallet (tokenAddress config) target tokensToTransfer)
                  (\<lambda>receipt.
                seq (updateTransaction E txId (markSuccess receipt))
                    (log_msg LvSuccess ''Transferred tokens'')))
               (\<lambda>error.
                  seq (updateTransaction E txId (markFailed error))
                      (log_msg LvWarning ''Failed to transfer tokens''))))
         else log_msg LvInfo ''Skipping token transfer'')"

text \<open>
  \<^verbatim>\<open>customGasLimit ? BigInt(customGasLimit) : BigInt(21000)\<close>: a missing or zero override is
  falsy.
\<close>

definition backETH :: "env \<Rightarrow> string \<Rightarrow> string \<Rightarrow> nat option \<Rightarrow> int \<Rightarrow> unit M" where
  "backETH E wallet target customGasLimit ethBalanceWei =
     (if ethBalanceWei > 10000000000000 then
        seq (log_msg LvInfo ''Wallet balance'')
       (bnd (getGasPrice E) (\<lambda>gasPrice.
          (let gasLimit = (case customGasLimit of
                             None \<Rightarrow> 21000
                           | Some g \<Rightarrow> if g = 0 then 21000 else int g);
               maxGasCostWei = gasLimit * gasPrice * 2;
               transferWei = ethBalanceWei - maxGasCostWei
           in if transferWei > 0 then
                seq (log_msg LvInfo ''Transferring ETH'')
               (bnd (saveTransaction E
                       (pendingTx Eth_transfer wallet target (etherOf transferWei) ''ETH''))
                  (\<lambda>txId.
                  try_catch
                    (bnd (transferETH E wallet target (etherOf transferWei)) (\<lambda>receipt.
                     seq (updateTransaction E txId (markSuccess receipt))
                         (log_msg LvSuccess ''Transferred ETH'')))
                    (\<lambda>error.
                       seq (updateTransaction E txId (markFailed error))
                           (log_msg LvWarning ''ETH transfer failed''))))
              else log_msg LvInfo ''Skipping ETH transfer (insufficient after gas)'')))
      else log_msg LvInfo ''Skipping ETH transfer (balance too low)'')"

definition transferBackFromWallet ::
  "env \<Rightarrow> nat \<Rightarrow> string \<Rightarrow> string \<Rightarrow> nat option \<Rightarrow> unit M" where
  "transferBackFromWallet E walletId password target customGasLimit =
     try_catch
       (bnd (getWallet E walletId) (\<lambda>found.
          case found of
            None \<Rightarrow> throw ''Wallet not found''
          | Some walletInfo \<Rightarrow>
              bnd (loadWallet E (w_encryptedPrivateKey walletInfo) password) (\<lambda>wallet.
              seq (log_msg LvInfo ''Manually transferring from wallet'')
             (bnd (getConfig E) (\<lambda>stored.
                case stored of
                  None \<Rightarrow> throw ''No configuration found. Cannot determine token address.''
                | Some config \<Rightarrow>
                    bnd (getTokenBalance E (tokenAddress config) wallet) (\<lambda>tokenBalanceNum.
                    seq (backTokens E config wallet target tokenBalanceNum)
                   (bnd (getBalance E wallet) (\<lambda>ethBalanceWei.
                    seq (backETH E wallet target customGasLimit ethBalanceWei)
                   (seq (updateWallet E walletId Completed)
                        (log_msg LvSuccess ''Transfer back completed''))))))))))
       (\<lambda>error.
          seq (log_msg LvError ''Transfer back error'')
         (seq (try_catch (updateWallet E walletId Completed)
                 (\<lambda>dbError. log_msg LvError ''Failed to update wallet status''))
              (throw error)))"

section \<open>Concrete runs\<close>

text \<open>
  A fresh \<^verbatim>\<open>TransactionManager\<close> over an empty Ledger, a configuration that passes
  validation, and an environment in which every call succeeds: each balance query
  reports 1 ETH and no tokens, the gas price is 1 gwei, every random draw is 1/4.
\<close>

definition idleState :: tm_state where
  "idleState =
     \<lparr>isRunning = False, shouldStop = False, watchdogTimer = False, logs = [],
      wallets_db = [], walletKeyGen = 0, txs_db = [], txKeyGen = 0, config_db = None,
      clock = 0, draws = 0, submitted = [], loaded = []\<rparr>"

definition sampleConfig :: AppConfig where
  "sampleConfig =
     \<lparr>tokenAddress = ''0x4200000000000000000000000000000000000006'', numWallets = 1,
      masterPrivateKey = ''0xkey'',
      targetAddress = ''0x2626664c2603336E57B271c5C0b26F421741e481'',
      gasAmount = ''0.01'', minPurchaseAmount = ''0.1'', maxPurchaseAmount = ''0.2'',
      minKeptTokens = ''0'', chain = ''base'', dex = ''uniswap-v3'',
      rpcUrl = ''https://mainnet.base.org''\<rparr>"

definition okAnswer :: answer where
  "okAnswer =
     \<lparr>a_stop = False, a_db_fail = None, a_vault_fail = None, a_rpc_fail = None,
      a_chain_fail = None, a_wei = 1000000000000000000, a_gasPrice = Some 1000000000,
      a_units = 0, a_decimals = 18, a_address = ''0xw1'', a_cipher = ''c1'',
      a_hash = ''0xtx''\<rparr>"

definition quietEnv :: env where
  "quietEnv =
     \<lparr>answers = (\<lambda>_. okAnswer), rand_draw = (\<lambda>_. 1 / 4),
      isAddress = (\<lambda>a. length a = 42 \<and> startsWith a ''0x''),
      walletOfKey = (\<lambda>_. Some ''0xmaster'')\<rparr>"

text \<open>A Ledger that already holds one funded wallet of an earlier run.\<close>

definition earlierState :: tm_state where
  "earlierState =
     idleState\<lparr>wallets_db :=
         [\<lparr>w_id = 1, w_address = ''0xw1'', w_encryptedPrivateKey = ''c1'', w_status = Funded\<rparr>],
       walletKeyGen := 1\<rparr>"

text \<open>
  One wallet; the funding transfer (the sixth awaited call: balance, create, save, delay,
  pending record, transfer) rejects.
\<close>

definition fundingFails :: env where
  "fundingFails =
     quietEnv\<lparr>answers :=
       (\<lambda>t. if t = 5 then okAnswer\<lparr>a_chain_fail := Some ''timeout''\<rparr> else okAnswer)\<rparr>"

text \<open>
  Two wallets (the second is created by call 4); the funding transfer of the second (call
  13) rejects, while its balance query later reports 1 ETH like every other.
\<close>

definition secondFundingFails :: env where
  "secondFundingFails =
     quietEnv\<lparr>answers :=
       (\<lambda>t. if t = 4 then okAnswer\<lparr>a_address := ''0xw2''\<rparr>
            else if t = 13 then okAnswer\<lparr>a_chain_fail := Some ''timeout''\<rparr>
            else okAnswer)\<rparr>"

text \<open>
  The Ledger rejects the first \<^verbatim>\<open>saveWallet\<close> (call 2); in the sweep that follows, the Key
  Vault cannot decrypt the key of the earlier wallet (call 4).
\<close>

definition ledgerThenVaultFail :: env where
  "ledgerThenVaultFail =
     quietEnv\<lparr>answers :=
       (\<lambda>t. if t = 2 then okAnswer\<lparr>a_db_fail := Some ''QuotaExceededError''\<rparr>
            else if t = 4 then okAnswer\<lparr>a_vault_fail := Some ''Failed to load wallet''\<rparr>
            else okAnswer)\<rparr>"

text \<open>Every balance query reports 0.1 ETH: less than one wallet's minimum plus gas.\<close>

definition poorEnv :: env where
  "poorEnv = quietEnv\<lparr>answers := (\<lambda>_. okAnswer\<lparr>a_wei := 100000000000000000\<rparr>)\<rparr>"

text \<open>The Ledger rejects the first \<^verbatim>\<open>saveWallet\<close> (call 2); every later call succeeds.\<close>

definition ledgerFailsOnce :: env where
  "ledgerFailsOnce =
     quietEnv\<lparr>answers :=
       (\<lambda>t. if t = 2 then okAnswer\<lparr>a_db_fail := Some ''QuotaExceededError''\<rparr> else okAnswer)\<rparr>"

text \<open>Every balance query reports no ETH and no tokens.\<close>

definition zeroEnv :: env where
  "zeroEnv = quietEnv\<lparr>answers := (\<lambda>_. okAnswer\<lparr>a_wei := 0, a_units := 0\<rparr>)\<rparr>"

text \<open>A Ledger with one \<open>completed\<close> wallet and the configuration saved by the application.\<close>

definition completedState :: tm_state where
  "completedState =
     idleState\<lparr>wallets_db :=
         [\<lparr>w_id = 1, w_address = ''0xw1'', w_encryptedPrivateKey = ''c1'', w_status = Completed\<rparr>],
       walletKeyGen := 1, config_db := Some sampleConfig\<rparr>"

text \<open>
  A single funding step from \<open>earlierState\<close>: the pending record is saved by call 0, the
  transfer (call 1) rejects.
\<close>

definition fundingRejected :: env where
  "fundingRejected =
     quietEnv\<lparr>answers :=
       (\<lambda>t. if t = 1 then okAnswer\<lparr>a_chain_fail := Some ''timeout''\<rparr> else okAnswer)\<rparr>"

definition firstWallet :: mem_wallet where
  "firstWallet = \<lparr>m_address = ''0xw1'', m_dbId = 1, m_purchaseAmount = Num (1 / 10)\<rparr>"

text \<open>
  The user presses stop while the first wallet is being created (call 1); and a running
  operation whose flag is already set.
\<close>

definition stopDuringCreate :: env where
  "stopDuringCreate =
     quietEnv\<lparr>answers := (\<lambda>t. if t = 1 then okAnswer\<lparr>a_stop := True\<rparr> else okAnswer)\<rparr>"

definition stoppedState :: tm_state where
  "stoppedState = idleState\<lparr>isRunning := True, shouldStop := True\<rparr>"

text \<open>What a run leaves behind: result, wallet statuses, transaction records, calls made.\<close>

definition runView ::
  "(string + unit) \<times> tm_state
     \<Rightarrow> (string + unit) \<times> (nat \<times> wstatus) list
         \<times> (txtype \<times> string \<times> jsnum \<times> txstatus) list \<times> submission list \<times> string list
         \<times> bool" where
  "runView rs =
     (fst rs, map (\<lambda>w. (w_id w, w_status w)) (wallets_db (snd rs)),
      map (\<lambda>t. (tx_type t, tx_fromAddress t, tx_amount t, tx_status t)) (txs_db (snd rs)),
      submitted (snd rs), loaded (snd rs), isRunning (snd rs))"

section \<open>Specifications of computations\<close>

text \<open>
  \<open>hoare P m Q X\<close>: started in a state satisfying \<open>P\<close>, the computation \<open>m\<close> either returns
  \<open>x\<close> in a state satisfying \<open>Q x\<close> or throws \<open>e\<close> in a state satisfying \<open>X e\<close>.
\<close>

definition hoare ::
  "(tm_state \<Rightarrow> bool) \<Rightarrow> 'a M \<Rightarrow> ('a \<Rightarrow> tm_state \<Rightarrow> bool) \<Rightarrow> (string \<Rightarrow> tm_state \<Rightarrow> bool) \<Rightarrow> bool" where
  "hoare P m Q X =
     (\<forall>s. P s \<longrightarrow> (case m s of (Inl e, s1) \<Rightarrow> X e s1 | (Inr x, s1) \<Rightarrow> Q x s1))"

text \<open>
  From the current call on, the Ledger, the Key Vault and the balance queries answer
  without an error; the submissions on chain may still fail.
\<close>

definition healthy :: "env \<Rightarrow> tm_state \<Rightarrow> bool" where
  "healthy E s =
     (\<forall>t \<ge> clock s. a_db_fail (answers E t) = None \<and> a_vault_fail (answers E t) = None
                      \<and> a_rpc_fail (answers E t) = None)"

definition sweeping :: "env \<Rightarrow> WalletInfo list \<Rightarrow> string list \<Rightarrow> tm_state \<Rightarrow> bool" where
  "sweeping E W L s = (healthy E s \<and> wallets_db s = W \<and> loaded s = L)"

text \<open>
  The wallet store after a sweep over the snapshot \<open>ws\<close>, and the keys decrypted on the
  way: every wallet of the snapshot that is not yet \<open>completed\<close> is loaded and then marked.
\<close>

fun sweepLedger :: "WalletInfo list \<Rightarrow> WalletInfo list \<Rightarrow> WalletInfo list" where
  "sweepLedger [] W = W"
| "sweepLedger (w # ws) W =
     sweepLedger ws (if w_status w = Completed then W else setStatus (w_id w) Completed W)"

definition pendingKeys :: "WalletInfo list \<Rightarrow> string list" where
  "pendingKeys ws = map w_encryptedPrivateKey (filter (\<lambda>w. w_status w \<noteq> Completed) ws)"

text \<open>Frames: the keys of the wallet store; the stores and the submissions as a whole.\<close>

definition walletIds :: "nat list \<Rightarrow> tm_state \<Rightarrow> bool" where
  "walletIds ids s = (map w_id (wallets_db s) = ids)"

definition untouched ::
  "Transaction list \<Rightarrow> submission list \<Rightarrow> WalletInfo list \<Rightarrow> AppConfig option \<Rightarrow> tm_state \<Rightarrow> bool" where
  "untouched T S W C s = (txs_db s = T \<and> submitted s = S \<and> wallets_db s = W \<and> config_db s = C)"

section \<open>Properties\<close>

subsection \<open>Evaluation rules\<close>

lemmas parse_defs =
  parseFloat_def unsignedLiteral_def isWhite_def isDigit_def digitsVal_def exponentPart_def
  startsWith_def

lemmas monad_defs =
  ret_def throw_def bnd_def seq_def try_catch_def try_finally_def modify_def log_msg_def
  await_def call_def delay_def stopOperation_def submit_def

lemmas ledger_defs =
  saveWallet_def getWallet_def getAllWallets_def setStatus_def updateWallet_def
  saveTransaction_def
  updateTransaction_def getConfig_def markSuccess_def markFailed_def pendingTx_def

lemmas service_defs =
  createWallet_def loadWallet_def getBalance_def getTokenBalance_def getGasPrice_def
  gasPriceOf_def
  transferETH_def transferToken_def swapETHToToken_def etherOf_def unitsOf_def

lemmas fixture_defs =
  idleState_def sampleConfig_def okAnswer_def quietEnv_def earlierState_def fundingFails_def
  secondFundingFails_def ledgerThenVaultFail_def

lemmas js_defs = jle_def jgt_def jsub_def jmin_def jmax_def

lemmas operation_defs =
  validateConfig_def startWatchdog_def stopWatchdog_def createStep_def fundStep_def
  swapStep_def consolidateTokens_def consolidateETH_def transferStep_def cleanupTokens_def
  cleanupETH_def cleanupStep_def cleanupAndConsolidateFunds_def stopReturn_def afterSwap_def
  afterFund_def afterCreate_def operationBody_def sweepAttempt_def operationFailed_def
  beginRun_def endRun_def
  executeOperation_def generateRandomAllocations_def

lemma bnd_state_cong: "s = s' \<Longrightarrow> bnd m f s = bnd m f s'"
  by simp

lemma seq_state_cong: "s = s' \<Longrightarrow> seq m k s = seq m k s'"
  by simp

lemma try_catch_state_cong: "s = s' \<Longrightarrow> try_catch m h s = try_catch m h s'"
  by simp

lemma try_finally_state_cong: "s = s' \<Longrightarrow> try_finally m f s = try_finally m f s'"
  by simp

lemma if_state_cong: "c = c' \<Longrightarrow> (if c then A else B) s = (if c' then A else B) s"
  by simp

lemma let_state_cong: "a = b \<Longrightarrow> Let a t s = Let b t s"
  by simp

lemma case_option_state_cong: "x = y \<Longrightarrow> case_option a f x s = case_option a f y s"
  by simp

lemma case_prod_state_cong: "p = q \<Longrightarrow> case_prod f p s = case_prod f q s"
  by simp

text \<open>
  With these congruence rules the simplifier runs a computation on a concrete state from
  the outside in: it evaluates the state and the scrutinee of a conditional before it
  looks at a continuation.
\<close>

lemmas state_congs =
  bnd_state_cong seq_state_cong try_catch_state_cong try_finally_state_cong if_state_cong
  let_state_cong case_option_state_cong case_prod_state_cong let_weak_cong
  prod.case_cong_weak sum.case_cong_weak option.case_cong_weak list.case_cong_weak

lemma replicate_numeral_Cons: "replicate (numeral v) x = x # replicate (pred_numeral v) x"
  by (simp add: numeral_eq_Suc)

lemma list_update_numeral: "(x # xs)[numeral v := y] = x # xs[pred_numeral v := y]"
  by (simp add: numeral_eq_Suc)

lemmas run_defs =
  runView_def parse_defs js_defs monad_defs ledger_defs service_defs operation_defs fixture_defs
  Let_def replicate_numeral_Cons list_update_numeral

lemma createLoop_numeral [simp]:
  "createLoop E password allocs (numeral v) i wallets s
     = createLoop E password allocs (Suc (pred_numeral v)) i wallets s"
  by (simp add: numeral_eq_Suc)

lemma jsub_Num [simp]: "jsub (Num x) (Num y) = Num (x - y)"
  by (simp add: jsub_def)

lemma jmin_Num [simp]: "jmin (Num x) (Num y) = Num (min x y)"
  by (simp add: jmin_def min_def)

lemma jmax_Num [simp]: "jmax (Num x) (Num y) = Num (max x y)"
  by (simp add: jmax_def max_def)

lemma jgt_Num [simp]: "jgt (Num x) (Num y) = (y < x)"
  by (simp add: jgt_def)

lemma jle_Num [simp]: "jle (Num x) (Num y) = (x \<le> y)"
  by (auto simp add: jle_def)

subsection \<open>Allocation planner\<close>




lemma distributeRemaining_numeral [simp]:
  "distributeRemaining rnd mn mx (numeral v) i st
     = distributeRemaining rnd mn mx (Suc (pred_numeral v)) i st"
  by (simp add: numeral_eq_Suc)







subsection \<open>Concrete runs of the whole operation\<close>

text \<open>
  Claim C6 at a failing input: one wallet, the funding transfer rejects. The pending
  \<open>fund_transfer\<close> record is never updated and stays \<open>pending\<close>, although the run goes on
  (the swap and the final ETH transfer succeed and are marked \<open>success\<close>).
\<close>

theorem failed_funding_record_stays_pending:
  "runView (executeOperation fundingFails sampleConfig ''pw'' idleState)
     = (Inr (), [(1, Completed)],
        [(Fund_transfer, ''0xmaster'', Num (21 / 100), Pending),
         (Token_swap, ''0xw1'', Num (1 / 5), TxSuccess),
         (Eth_transfer, ''0xw1'', Num (499979 / 500000), TxSuccess)],
        [SubmitTransferETH ''0xmaster'' ''0xw1'' (Num (21 / 100)),
         SubmitSwap ''0xw1'' ''0x4200000000000000000000000000000000000006'' (Num (1 / 5)),
         SubmitTransferETH ''0xw1'' ''0x2626664c2603336E57B271c5C0b26F421741e481''
           (Num (499979 / 500000))],
        [], False)"
  by (simp add: run_defs cong: state_congs)

text \<open>
  Claim C10: \<^verbatim>\<open>parseFloat\<close> of a non-numeric string is NaN, every guard of
  \<^verbatim>\<open>validateConfig\<close> compares false on it, and the operation goes on with NaN amounts: a
  wallet is created, and the funding and the swap are attempted with the amount NaN.
\<close>

theorem validateConfig_accepts_NaN:
  "parseFloat ''abc'' = NaN
   \<and> fst (validateConfig quietEnv (sampleConfig\<lparr>gasAmount := ''abc''\<rparr>) idleState) = Inr ()
   \<and> fst (validateConfig quietEnv (sampleConfig\<lparr>minPurchaseAmount := ''abc''\<rparr>) idleState) = Inr ()
   \<and> fst (validateConfig quietEnv (sampleConfig\<lparr>maxPurchaseAmount := ''abc''\<rparr>) idleState) = Inr ()
   \<and> runView (executeOperation quietEnv (sampleConfig\<lparr>gasAmount := ''abc''\<rparr>) ''pw'' idleState)
       = (Inr (), [(1, Completed)],
          [(Fund_transfer, ''0xmaster'', NaN, Pending),
           (Token_swap, ''0xw1'', NaN, Pending),
           (Eth_transfer, ''0xw1'', Num (499979 / 500000), TxSuccess)],
          [SubmitTransferETH ''0xmaster'' ''0xw1'' NaN,
           SubmitSwap ''0xw1'' ''0x4200000000000000000000000000000000000006'' NaN,
           SubmitTransferETH ''0xw1'' ''0x2626664c2603336E57B271c5C0b26F421741e481''
             (Num (499979 / 500000))],
          [], False)"
  by (simp add: run_defs cong: state_congs)

text \<open>
  Claim C3 as stated fails: the configuration is invalid (zero wallets) and the Ledger
  holds a funded wallet of an earlier run. The error reaches the caller, but only after
  the sweep has decrypted that wallet, recorded and submitted an ETH transfer from it and
  marked it \<open>completed\<close>.
\<close>

theorem validation_failure_counterexample:
  "runView (executeOperation quietEnv (sampleConfig\<lparr>numWallets := 0\<rparr>) ''pw'' earlierState)
     = (Inl ''Number of wallets must be between 1 and 1000'', [(1, Completed)],
        [(Eth_transfer, ''0xw1'', Num (9999 / 10000), TxSuccess)],
        [SubmitTransferETH ''0xw1'' ''0x2626664c2603336E57B271c5C0b26F421741e481''
           (Num (9999 / 10000))],
        [''c1''], False)
   \<and> runView (Inr (), earlierState) = (Inr (), [(1, Funded)], [], [], [], False)"
  by (simp add: run_defs cong: state_congs)

text \<open>
  Claim C5 as stated fails: the Ledger rejects the first \<^verbatim>\<open>saveWallet\<close>, the sweep starts,
  and the key of the earlier wallet cannot be decrypted. The sweep logs the error and
  moves on; the wallet is left \<open>funded\<close>, not \<open>completed\<close>.
\<close>

theorem sweep_counterexample:
  "runView (executeOperation ledgerThenVaultFail sampleConfig ''pw'' earlierState)
     = (Inl ''QuotaExceededError'', [(1, Funded)], [], [], [''c1''], False)"
  by (simp add: run_defs cong: state_congs)

text \<open>
  Claim C4 as stated fails: two wallets, the funding transfer of the second rejects (its
  record stays \<open>pending\<close>), and its balance query in the swap phase reports 1 ETH. The swap
  phase does not look at the status: a swap of 0.2 ETH is recorded and submitted for the
  second wallet too.
\<close>

theorem unfunded_wallet_swap_counterexample:
  "runView (executeOperation secondFundingFails (sampleConfig\<lparr>numWallets := 2\<rparr>) ''pw'' idleState)
     = (Inr (), [(1, Completed), (2, Completed)],
        [(Fund_transfer, ''0xmaster'', Num (27 / 200), TxSuccess),
         (Fund_transfer, ''0xmaster'', Num (21 / 100), Pending),
         (Token_swap, ''0xw1'', Num (1 / 8), TxSuccess),
         (Token_swap, ''0xw2'', Num (1 / 5), TxSuccess),
         (Eth_transfer, ''0xw1'', Num (499979 / 500000), TxSuccess),
         (Eth_transfer, ''0xw2'', Num (499979 / 500000), TxSuccess)],
        [SubmitTransferETH ''0xmaster'' ''0xw1'' (Num (27 / 200)),
         SubmitTransferETH ''0xmaster'' ''0xw2'' (Num (21 / 100)),
         SubmitSwap ''0xw1'' ''0x4200000000000000000000000000000000000006'' (Num (1 / 8)),
         SubmitSwap ''0xw2'' ''0x4200000000000000000000000000000000000006'' (Num (1 / 5)),
         SubmitTransferETH ''0xw1'' ''0x2626664c2603336E57B271c5C0b26F421741e481''
           (Num (499979 / 500000)),
         SubmitTransferETH ''0xw2'' ''0x2626664c2603336E57B271c5C0b26F421741e481''
           (Num (499979 / 500000))],
        [], False)"
  by (simp add: run_defs cong: state_congs)

subsection \<open>Rules for the specifications of computations\<close>

subsection \<open>Rules for specifications\<close>

lemma hoare_ret: "(\<And>s. P s \<Longrightarrow> Q x s) \<Longrightarrow> hoare P (ret x) Q X"
  by (simp add: hoare_def ret_def)

lemma hoare_throw: "(\<And>s. P s \<Longrightarrow> X e s) \<Longrightarrow> hoare P (throw e) Q X"
  by (simp add: hoare_def throw_def)

lemma hoare_modify: "(\<And>s. P s \<Longrightarrow> Q () (f s)) \<Longrightarrow> hoare P (modify f) Q X"
  by (simp add: hoare_def modify_def)

lemma hoare_bnd:
  "hoare P m R X \<Longrightarrow> (\<And>x. hoare (R x) (f x) Q X) \<Longrightarrow> hoare P (bnd m f) Q X"
  by (fastforce simp add: hoare_def bnd_def split: prod.splits sum.splits)

lemma hoare_seq:
  "hoare P m (\<lambda>_. R) X \<Longrightarrow> hoare R k Q X \<Longrightarrow> hoare P (seq m k) Q X"
  unfolding seq_def by (rule hoare_bnd)

lemma hoare_try_catch:
  "hoare P m Q Y \<Longrightarrow> (\<And>e. hoare (Y e) (h e) Q X) \<Longrightarrow> hoare P (try_catch m h) Q X"
  by (fastforce simp add: hoare_def try_catch_def split: prod.splits sum.splits)

lemma hoare_if:
  "(c \<Longrightarrow> hoare P a Q X) \<Longrightarrow> (\<not> c \<Longrightarrow> hoare P b Q X) \<Longrightarrow> hoare P (if c then a else b) Q X"
  by simp

lemma hoare_weaken:
  "hoare P' m Q' X' \<Longrightarrow> (\<And>s. P s \<Longrightarrow> P' s) \<Longrightarrow> (\<And>x s. Q' x s \<Longrightarrow> Q x s)
     \<Longrightarrow> (\<And>e s. X' e s \<Longrightarrow> X e s) \<Longrightarrow> hoare P m Q X"
  by (fastforce simp add: hoare_def split: prod.splits sum.splits)

lemma hoare_post:
  "hoare P m Q X \<Longrightarrow> P s \<Longrightarrow> m s = (r, s1)
     \<Longrightarrow> (case r of Inl e \<Rightarrow> X e s1 | Inr x \<Rightarrow> Q x s1)"
  by (auto simp add: hoare_def split: sum.splits)

subsection \<open>The sweep under healthy collaborators\<close>

lemma hoare_false: "hoare (\<lambda>_. False) m Q X"
  by (simp add: hoare_def)

lemma hoare_pure: "(b \<Longrightarrow> hoare P m Q X) \<Longrightarrow> hoare (\<lambda>s. P s \<and> b) m Q X"
  by (auto simp add: hoare_def)

lemma healthy_await: "healthy E s \<Longrightarrow> healthy E (snd (await E s))"
  by (auto simp add: healthy_def await_def stopOperation_def Let_def)

lemma sweeping_await: "sweeping E W L s \<Longrightarrow> sweeping E W L (snd (await E s))"
  using healthy_await[of E s]
  by (auto simp add: sweeping_def await_def stopOperation_def Let_def)

lemma sweeping_now:
  "sweeping E W L s \<Longrightarrow> a_db_fail (answers E (clock s)) = None
     \<and> a_vault_fail (answers E (clock s)) = None \<and> a_rpc_fail (answers E (clock s)) = None"
  by (simp add: sweeping_def healthy_def)

lemma call_cases:
  "call E f s =
     (case f (answers E (clock s)) of
        None \<Rightarrow> (Inr (answers E (clock s)), snd (await E s))
      | Some m \<Rightarrow> (Inl m, snd (await E s)))"
  by (simp add: call_def bnd_def await_def Let_def ret_def throw_def split: option.splits)

lemma sw_call_db: "hoare (sweeping E W L) (call E a_db_fail) (\<lambda>_. sweeping E W L) X"
  unfolding hoare_def call_cases using sweeping_await sweeping_now
  by (auto split: option.splits)

lemma sw_call_vault: "hoare (sweeping E W L) (call E a_vault_fail) (\<lambda>_. sweeping E W L) X"
  unfolding hoare_def call_cases using sweeping_await sweeping_now
  by (auto split: option.splits)

lemma sw_call_rpc: "hoare (sweeping E W L) (call E a_rpc_fail) (\<lambda>_. sweeping E W L) X"
  unfolding hoare_def call_cases using sweeping_await sweeping_now
  by (auto split: option.splits)

lemma sw_call_chain:
  "hoare (sweeping E W L) (call E a_chain_fail) (\<lambda>_. sweeping E W L) (\<lambda>_. sweeping E W L)"
  unfolding hoare_def call_cases using sweeping_await
  by (auto split: option.splits)

lemma sw_modify:
  "(\<And>s. clock (f s) = clock s \<and> wallets_db (f s) = wallets_db s \<and> loaded (f s) = loaded s)
     \<Longrightarrow> hoare (sweeping E W L) (modify f) (\<lambda>_. sweeping E W L) X"
  by (rule hoare_modify) (simp add: sweeping_def healthy_def)

lemma sw_log: "hoare (sweeping E W L) (log_msg lv msg) (\<lambda>_. sweeping E W L) X"
  unfolding log_msg_def by (rule sw_modify) simp

lemma sw_submit: "hoare (sweeping E W L) (submit x) (\<lambda>_. sweeping E W L) X"
  unfolding submit_def by (rule sw_modify) simp

lemma sw_ret: "hoare (sweeping E W L) (ret x) (\<lambda>_. sweeping E W L) X"
  by (rule hoare_ret)

lemma sw_throw: "hoare (sweeping E W L) (throw e) Q (\<lambda>_. sweeping E W L)"
  by (rule hoare_throw)

lemma sw_delay: "hoare (sweeping E W L) (delay E) (\<lambda>_. sweeping E W L) X"
  unfolding hoare_def delay_def bnd_def ret_def using sweeping_await
  by (auto simp add: await_def Let_def split: prod.splits sum.splits)

lemma sw_saveTransaction:
  "hoare (sweeping E W L) (saveTransaction E tx) (\<lambda>_. sweeping E W L) X"
  unfolding saveTransaction_def
  by (rule hoare_bnd[OF sw_call_db]) (simp add: hoare_def sweeping_def healthy_def Let_def)

lemma sw_updateTransaction:
  "hoare (sweeping E W L) (updateTransaction E k u) (\<lambda>_. sweeping E W L) (\<lambda>_. sweeping E W L)"
  unfolding updateTransaction_def
  by (rule hoare_bnd[OF sw_call_db]) (simp add: hoare_def sweeping_def healthy_def)

lemma sw_transferETH:
  "hoare (sweeping E W L) (transferETH E a b x) (\<lambda>_. sweeping E W L) (\<lambda>_. sweeping E W L)"
  unfolding transferETH_def
  by (intro hoare_seq[OF sw_submit] hoare_if hoare_bnd[OF sw_call_chain] sw_ret sw_throw)

lemma sw_transferToken:
  "hoare (sweeping E W L) (transferToken E a t b x) (\<lambda>_. sweeping E W L) (\<lambda>_. sweeping E W L)"
  unfolding transferToken_def
  by (intro hoare_seq[OF sw_submit] hoare_if hoare_bnd[OF sw_call_chain] sw_ret sw_throw)

lemma sw_getBalance: "hoare (sweeping E W L) (getBalance E a) (\<lambda>_. sweeping E W L) X"
  unfolding getBalance_def by (intro hoare_bnd[OF sw_call_rpc] sw_ret)

lemma sw_getTokenBalance:
  "hoare (sweeping E W L) (getTokenBalance E t a) (\<lambda>_. sweeping E W L) X"
  unfolding getTokenBalance_def by (intro hoare_bnd[OF sw_call_rpc] sw_ret)

lemma sw_loadWallet:
  "hoare (sweeping E W L) (loadWallet E k p) (\<lambda>_. sweeping E W (L @ [k])) X"
  unfolding loadWallet_def
  by (rule hoare_seq[where R = "sweeping E W (L @ [k])"])
     (auto intro!: hoare_modify hoare_bnd[OF sw_call_vault] sw_ret simp add: sweeping_def healthy_def)

lemma sw_updateWallet:
  "find (\<lambda>v. w_id v = k) W \<noteq> None
     \<Longrightarrow> hoare (sweeping E W L) (updateWallet E k st) (\<lambda>_. sweeping E (setStatus k st W) L) X"
  unfolding updateWallet_def
  by (rule hoare_bnd[OF sw_call_db]) (auto simp add: hoare_def sweeping_def healthy_def)

lemma sw_getAllWallets:
  "hoare (sweeping E W L) (getAllWallets E) (\<lambda>x s. sweeping E W L s \<and> x = W) X"
  unfolding getAllWallets_def
  by (rule hoare_bnd[OF sw_call_db]) (simp add: hoare_def sweeping_def)

lemma sw_cleanupTokens:
  "hoare (sweeping E W L) (cleanupTokens E c w t) (\<lambda>_. sweeping E W L) X"
  unfolding cleanupTokens_def Let_def
  by (intro hoare_if sw_ret hoare_try_catch[where Y = "\<lambda>_. sweeping E W L"]
        hoare_bnd[OF sw_saveTransaction] hoare_bnd[OF sw_transferToken]
        hoare_seq[OF sw_updateTransaction] sw_log)

lemma sw_cleanupETH:
  "hoare (sweeping E W L) (cleanupETH E c w b) (\<lambda>_. sweeping E W L) X"
  unfolding cleanupETH_def Let_def
  by (intro hoare_if sw_ret hoare_try_catch[where Y = "\<lambda>_. sweeping E W L"]
        hoare_seq[OF sw_log] hoare_bnd[OF sw_saveTransaction] hoare_bnd[OF sw_transferETH]
        hoare_seq[OF sw_updateTransaction] sw_log)

subsection \<open>What the sweep does to the Ledger\<close>

lemma sw_cleanupStep_done:
  "w_status w = Completed
     \<Longrightarrow> hoare (sweeping E W L) (cleanupStep E c p w) (\<lambda>_. sweeping E W L) X"
  unfolding cleanupStep_def
  by (simp add: hoare_def bnd_def try_catch_def ret_def)

lemma sw_cleanupStep_pending:
  assumes "w_status w \<noteq> Completed" and "w_id w \<noteq> 0"
    and "find (\<lambda>v. w_id v = w_id w) W \<noteq> None"
  shows "hoare (sweeping E W L) (cleanupStep E c p w)
           (\<lambda>_. sweeping E (setStatus (w_id w) Completed W) (L @ [w_encryptedPrivateKey w])) X"
proof -
  let ?S = "sweeping E W (L @ [w_encryptedPrivateKey w])"
  let ?T = "sweeping E (setStatus (w_id w) Completed W) (L @ [w_encryptedPrivateKey w])"
  have tok: "hoare ?S (try_catch (getTokenBalance E (tokenAddress c) a) (\<lambda>error. ret (Num 0)))
               (\<lambda>_. ?S) (\<lambda>_ _. False)" for a
    by (intro hoare_try_catch[where Y = "\<lambda>_. ?S"] sw_getTokenBalance sw_ret)
  have upd: "hoare ?S (if w_id w \<noteq> 0 then updateWallet E (w_id w) Completed else ret ())
               (\<lambda>_. ?T) (\<lambda>_ _. False)"
    using assms by (simp add: sw_updateWallet)
  have body: "hoare (sweeping E W L)
      (bnd (loadWallet E (w_encryptedPrivateKey w) p) (\<lambda>wallet.
       bnd (getBalance E wallet) (\<lambda>ethBalance.
       bnd (try_catch (getTokenBalance E (tokenAddress c) wallet) (\<lambda>error. ret (Num 0)))
         (\<lambda>tokenBalanceNum.
       seq (log_msg LvInfo ''Wallet balances'')
      (seq (cleanupTokens E c wallet tokenBalanceNum)
      (seq (cleanupETH E c wallet (etherOf ethBalance))
      (seq (if w_id w \<noteq> 0 then updateWallet E (w_id w) Completed else ret ())
           (ret True))))))))
      (\<lambda>_. ?T) (\<lambda>_ _. False)"
    by (intro hoare_bnd[OF sw_loadWallet] hoare_bnd[OF sw_getBalance] hoare_bnd[OF tok]
          hoare_seq[OF sw_log] hoare_seq[OF sw_cleanupTokens] hoare_seq[OF sw_cleanupETH]
          hoare_seq[OF upd] sw_ret)
  have tc: "hoare (sweeping E W L)
      (try_catch
        (if w_status w = Completed then ret False
         else
           bnd (loadWallet E (w_encryptedPrivateKey w) p) (\<lambda>wallet.
           bnd (getBalance E wallet) (\<lambda>ethBalance.
           bnd (try_catch (getTokenBalance E (tokenAddress c) wallet) (\<lambda>error. ret (Num 0)))
             (\<lambda>tokenBalanceNum.
           seq (log_msg LvInfo ''Wallet balances'')
          (seq (cleanupTokens E c wallet tokenBalanceNum)
          (seq (cleanupETH E c wallet (etherOf ethBalance))
          (seq (if w_id w \<noteq> 0 then updateWallet E (w_id w) Completed else ret ())
               (ret True))))))))
        (\<lambda>error. seq (log_msg LvError ''Cleanup error for wallet'') (ret True)))
      (\<lambda>_. ?T) X"
    by (simp only: if_not_P[OF assms(1)]) (rule hoare_try_catch[OF body], rule hoare_false)
  have fin: "hoare ?T (if reachedEnd then delay E else ret ()) (\<lambda>_. ?T) X" for reachedEnd
    by (intro hoare_if sw_delay sw_ret)
  show ?thesis
    unfolding cleanupStep_def by (rule hoare_bnd[OF tc fin])
qed

lemma cleanupLoop_Cons:
  "cleanupLoop E c p (w # ws) = bnd (cleanupStep E c p w) (\<lambda>_. cleanupLoop E c p ws)"
  by (rule ext) (simp add: bnd_def split: prod.splits sum.splits)

lemma cleanupLoop_Nil: "cleanupLoop E c p [] = ret ()"
  by (rule ext) (simp add: ret_def)

lemma find_setStatus:
  "find (\<lambda>v. w_id v = k) (setStatus j st W) = None \<longleftrightarrow> find (\<lambda>v. w_id v = k) W = None"
  by (induction W) (auto simp add: setStatus_def)

lemma sw_cleanupLoop:
  "(\<forall>w \<in> set ws. w_status w \<noteq> Completed
       \<longrightarrow> w_id w \<noteq> 0 \<and> find (\<lambda>v. w_id v = w_id w) W \<noteq> None)
     \<Longrightarrow> hoare (sweeping E W L) (cleanupLoop E c p ws)
           (\<lambda>_. sweeping E (sweepLedger ws W) (L @ pendingKeys ws)) X"
proof (induction ws arbitrary: W L)
  case Nil
  then show ?case by (simp add: cleanupLoop_Nil pendingKeys_def sw_ret)
next
  case (Cons w ws)
  show ?case
  proof (cases "w_status w = Completed")
    case True
    have "hoare (sweeping E W L) (cleanupLoop E c p ws)
            (\<lambda>_. sweeping E (sweepLedger ws W) (L @ pendingKeys ws)) X"
      using Cons.prems by (intro Cons.IH) simp
    then show ?thesis
      using True unfolding cleanupLoop_Cons
      by (auto intro!: hoare_bnd[OF sw_cleanupStep_done] simp add: pendingKeys_def)
  next
    case False
    let ?W = "setStatus (w_id w) Completed W"
    let ?L = "L @ [w_encryptedPrivateKey w]"
    have pre: "w_id w \<noteq> 0" "find (\<lambda>v. w_id v = w_id w) W \<noteq> None"
      using Cons.prems False by auto
    have "hoare (sweeping E ?W ?L) (cleanupLoop E c p ws)
            (\<lambda>_. sweeping E (sweepLedger ws ?W) (?L @ pendingKeys ws)) X"
      using Cons.prems by (intro Cons.IH) (simp add: find_setStatus)
    then show ?thesis
      using False pre unfolding cleanupLoop_Cons
      by (auto intro!: hoare_bnd[OF sw_cleanupStep_pending] simp add: pendingKeys_def)
  qed
qed

lemma find_self: "w \<in> set W \<Longrightarrow> find (\<lambda>v. w_id v = w_id w) W \<noteq> None"
  by (auto simp add: find_None_iff)

lemma sw_cleanupAndConsolidateFunds:
  assumes "\<forall>w \<in> set W. w_id w \<noteq> 0"
  shows "hoare (sweeping E W L) (cleanupAndConsolidateFunds E c p)
           (\<lambda>_. sweeping E (sweepLedger W W) (L @ pendingKeys W)) X"
proof -
  have loop: "hoare (sweeping E W L) (cleanupLoop E c p W)
                (\<lambda>_. sweeping E (sweepLedger W W) (L @ pendingKeys W)) X"
    using assms by (intro sw_cleanupLoop) (simp add: find_self)
  have rest: "hoare (\<lambda>s. sweeping E W L s \<and> x = W)
       (if x = [] then log_msg LvInfo ''No wallets to clean up''
        else seq (log_msg LvInfo ''Found wallets to check for funds'')
            (seq (cleanupLoop E c p x) (log_msg LvSuccess ''Cleanup and consolidation completed'')))
       (\<lambda>_. sweeping E (sweepLedger W W) (L @ pendingKeys W)) X" for x
  proof (rule hoare_pure)
    assume x: "x = W"
    show "hoare (sweeping E W L)
       (if x = [] then log_msg LvInfo ''No wallets to clean up''
        else seq (log_msg LvInfo ''Found wallets to check for funds'')
            (seq (cleanupLoop E c p x) (log_msg LvSuccess ''Cleanup and consolidation completed'')))
       (\<lambda>_. sweeping E (sweepLedger W W) (L @ pendingKeys W)) X"
    proof (cases "W = []")
      case True
      then show ?thesis using x by (simp add: pendingKeys_def sw_log)
    next
      case False
      then show ?thesis using x
        by (auto intro!: hoare_seq[OF sw_log] hoare_seq[OF loop] sw_log)
    qed
  qed
  show ?thesis
    unfolding cleanupAndConsolidateFunds_def
    by (intro hoare_seq[OF sw_log] hoare_bnd[OF sw_getAllWallets] rest)
qed

lemma sw_sweepAttempt:
  assumes "\<forall>w \<in> set W. w_id w \<noteq> 0"
  shows "hoare (sweeping E W L) (sweepAttempt E c p)
           (\<lambda>_. sweeping E (sweepLedger W W) (L @ pendingKeys W)) (\<lambda>_ _. False)"
  unfolding sweepAttempt_def
  by (rule hoare_try_catch[where Y = "\<lambda>_ _. False"])
     (rule sw_cleanupAndConsolidateFunds[OF assms], rule hoare_false)

text \<open>The wallet store after the sweep, in closed form.\<close>

lemma sweepLedger_map:
  "sweepLedger ws W =
     map (\<lambda>v. if w_id v \<in> w_id ` {w \<in> set ws. w_status w \<noteq> Completed}
               then v\<lparr>w_status := Completed\<rparr> else v) W"
proof (induction ws arbitrary: W)
  case Nil
  then show ?case by simp
next
  case (Cons w ws)
  show ?case
    by (simp add: Cons.IH setStatus_def o_def) (auto intro!: map_cong)
qed

lemma sweepLedger_completes: "list_all (\<lambda>v. w_status v = Completed) (sweepLedger W W)"
  by (auto simp add: sweepLedger_map list_all_iff)

lemma sweepLedger_ids: "map w_id (sweepLedger ws W) = map w_id W"
  by (simp add: sweepLedger_map o_def)

lemma sweepAttempt_returns: "fst (sweepAttempt E c p s) = Inr ()"
  by (simp add: sweepAttempt_def try_catch_def log_msg_def modify_def
        split: prod.splits sum.splits)

lemma executeOperation_failure:
  assumes "\<not> isRunning s" and "fst (operationBody E c p (beginRun s)) = Inl e"
  shows "executeOperation E c p s =
           (Inl e, endRun (snd (sweepAttempt E c p
              ((snd (operationBody E c p (beginRun s)))
                 \<lparr>logs := logs (snd (operationBody E c p (beginRun s)))
                            @ [(LvError, ''Operation failed'')]\<rparr>))))"
proof -
  obtain s1 where ob: "operationBody E c p (beginRun s) = (Inl e, s1)"
    using assms(2) by (cases "operationBody E c p (beginRun s)") auto
  let ?s2 = "s1\<lparr>logs := logs s1 @ [(LvError, ''Operation failed'')]\<rparr>"
  obtain s3 where sw: "sweepAttempt E c p ?s2 = (Inr (), s3)"
    using sweepAttempt_returns[of E c p ?s2] by (cases "sweepAttempt E c p ?s2") auto
  show ?thesis
    using assms(1) ob sw
    by (simp add: executeOperation_def try_finally_def try_catch_def operationFailed_def
          seq_def bnd_def log_msg_def modify_def throw_def)
qed

subsection \<open>No computation of the sweep adds or removes a wallet\<close>

lemma inv_bnd:
  "hoare J m (\<lambda>_. J) (\<lambda>_. J) \<Longrightarrow> (\<And>x. hoare J (f x) (\<lambda>_. J) (\<lambda>_. J))
     \<Longrightarrow> hoare J (bnd m f) (\<lambda>_. J) (\<lambda>_. J)"
  by (rule hoare_bnd)

lemma inv_seq:
  "hoare J m (\<lambda>_. J) (\<lambda>_. J) \<Longrightarrow> hoare J k (\<lambda>_. J) (\<lambda>_. J)
     \<Longrightarrow> hoare J (seq m k) (\<lambda>_. J) (\<lambda>_. J)"
  by (rule hoare_seq)

lemma inv_try_catch:
  "hoare J m (\<lambda>_. J) (\<lambda>_. J) \<Longrightarrow> (\<And>e. hoare J (h e) (\<lambda>_. J) X)
     \<Longrightarrow> hoare J (try_catch m h) (\<lambda>_. J) X"
  by (rule hoare_try_catch)

lemma setStatus_ids: "map w_id (setStatus k st W) = map w_id W"
  by (induction W) (simp_all add: setStatus_def)

lemma ids_await: "walletIds ids s \<Longrightarrow> walletIds ids (snd (await E s))"
  by (auto simp add: walletIds_def await_def stopOperation_def Let_def)

lemma ids_call: "hoare (walletIds ids) (call E f) (\<lambda>_. walletIds ids) (\<lambda>_. walletIds ids)"
  unfolding hoare_def call_cases using ids_await by (auto split: option.splits)

lemma ids_modify:
  "(\<And>s. wallets_db (f s) = wallets_db s)
     \<Longrightarrow> hoare (walletIds ids) (modify f) (\<lambda>_. walletIds ids) X"
  by (rule hoare_modify) (simp add: walletIds_def)

lemma ids_log: "hoare (walletIds ids) (log_msg lv msg) (\<lambda>_. walletIds ids) X"
  unfolding log_msg_def by (rule ids_modify) simp

lemma ids_submit: "hoare (walletIds ids) (submit x) (\<lambda>_. walletIds ids) X"
  unfolding submit_def by (rule ids_modify) simp

lemma ids_ret: "hoare (walletIds ids) (ret x) (\<lambda>_. walletIds ids) X"
  by (rule hoare_ret)

lemma ids_throw: "hoare (walletIds ids) (throw e) Q (\<lambda>_. walletIds ids)"
  by (rule hoare_throw)

lemma ids_delay: "hoare (walletIds ids) (delay E) (\<lambda>_. walletIds ids) X"
  unfolding hoare_def delay_def bnd_def ret_def using ids_await
  by (auto simp add: await_def Let_def split: prod.splits sum.splits)

lemma ids_saveTransaction:
  "hoare (walletIds ids) (saveTransaction E tx) (\<lambda>_. walletIds ids) (\<lambda>_. walletIds ids)"
  unfolding saveTransaction_def
  by (rule hoare_bnd[OF ids_call]) (simp add: hoare_def walletIds_def Let_def)

lemma ids_updateTransaction:
  "hoare (walletIds ids) (updateTransaction E k u) (\<lambda>_. walletIds ids) (\<lambda>_. walletIds ids)"
  unfolding updateTransaction_def
  by (rule hoare_bnd[OF ids_call]) (simp add: hoare_def walletIds_def)

lemma ids_transferETH:
  "hoare (walletIds ids) (transferETH E a b x) (\<lambda>_. walletIds ids) (\<lambda>_. walletIds ids)"
  unfolding transferETH_def
  by (intro hoare_seq[OF ids_submit] hoare_if hoare_bnd[OF ids_call] ids_ret ids_throw)

lemma ids_transferToken:
  "hoare (walletIds ids) (transferToken E a t b x) (\<lambda>_. walletIds ids) (\<lambda>_. walletIds ids)"
  unfolding transferToken_def
  by (intro hoare_seq[OF ids_submit] hoare_if hoare_bnd[OF ids_call] ids_ret ids_throw)

lemma ids_getBalance:
  "hoare (walletIds ids) (getBalance E a) (\<lambda>_. walletIds ids) (\<lambda>_. walletIds ids)"
  unfolding getBalance_def by (intro hoare_bnd[OF ids_call] ids_ret)

lemma ids_getTokenBalance:
  "hoare (walletIds ids) (getTokenBalance E t a) (\<lambda>_. walletIds ids) (\<lambda>_. walletIds ids)"
  unfolding getTokenBalance_def by (intro hoare_bnd[OF ids_call] ids_ret)

lemma ids_loadWallet:
  "hoare (walletIds ids) (loadWallet E k p) (\<lambda>_. walletIds ids) (\<lambda>_. walletIds ids)"
  unfolding loadWallet_def
  by (intro hoare_seq[OF ids_modify] hoare_bnd[OF ids_call] ids_ret) simp

lemma ids_updateWallet:
  "hoare (walletIds ids) (updateWallet E k st) (\<lambda>_. walletIds ids) (\<lambda>_. walletIds ids)"
  unfolding updateWallet_def
  by (rule hoare_bnd[OF ids_call]) (simp add: hoare_def walletIds_def setStatus_ids)

lemma ids_getAllWallets:
  "hoare (walletIds ids) (getAllWallets E) (\<lambda>_. walletIds ids) (\<lambda>_. walletIds ids)"
  unfolding getAllWallets_def
  by (rule hoare_bnd[OF ids_call]) (simp add: hoare_def)

lemmas ids_prims =
  ids_call ids_log ids_submit ids_ret ids_throw ids_delay ids_saveTransaction
  ids_updateTransaction ids_transferETH ids_transferToken ids_getBalance ids_getTokenBalance
  ids_loadWallet ids_updateWallet ids_getAllWallets

lemma ids_cleanupTokens:
  "hoare (walletIds ids) (cleanupTokens E c w t) (\<lambda>_. walletIds ids) (\<lambda>_. walletIds ids)"
  unfolding cleanupTokens_def Let_def
  by (intro hoare_if inv_try_catch inv_bnd inv_seq ids_prims)

lemma ids_cleanupETH:
  "hoare (walletIds ids) (cleanupETH E c w b) (\<lambda>_. walletIds ids) (\<lambda>_. walletIds ids)"
  unfolding cleanupETH_def Let_def
  by (intro hoare_if inv_try_catch inv_bnd inv_seq ids_prims)

lemma ids_cleanupStep:
  "hoare (walletIds ids) (cleanupStep E c p w) (\<lambda>_. walletIds ids) (\<lambda>_. walletIds ids)"
  unfolding cleanupStep_def
  by (rule hoare_bnd[where R = "\<lambda>_. walletIds ids"])
     (intro hoare_if inv_try_catch inv_bnd inv_seq ids_prims ids_cleanupTokens ids_cleanupETH)+

lemma ids_cleanupLoop:
  "hoare (walletIds ids) (cleanupLoop E c p ws) (\<lambda>_. walletIds ids) (\<lambda>_. walletIds ids)"
proof (induction ws)
  case Nil
  show ?case by (simp add: cleanupLoop_Nil ids_ret)
next
  case (Cons w ws)
  show ?case unfolding cleanupLoop_Cons by (rule hoare_bnd[OF ids_cleanupStep Cons])
qed

lemma ids_sweepAttempt:
  "hoare (walletIds ids) (sweepAttempt E c p) (\<lambda>_. walletIds ids) (\<lambda>_. walletIds ids)"
  unfolding sweepAttempt_def cleanupAndConsolidateFunds_def
  by (intro hoare_if inv_try_catch inv_bnd inv_seq ids_prims ids_cleanupLoop)

lemma sweepAttempt_ids:
  "map w_id (wallets_db (snd (sweepAttempt E c p s))) = map w_id (wallets_db s)"
proof -
  obtain s' where sw: "sweepAttempt E c p s = (Inr (), s')"
    using sweepAttempt_returns[of E c p s] by (cases "sweepAttempt E c p s") auto
  have "walletIds (map w_id (wallets_db s)) s" by (simp add: walletIds_def)
  from hoare_post[OF ids_sweepAttempt this sw] show ?thesis
    using sw by (simp add: walletIds_def)
qed

lemma sweepAttempt_empty:
  "wallets_db s = [] \<Longrightarrow>
     wallets_db (snd (sweepAttempt E c p s)) = []
     \<and> txs_db (snd (sweepAttempt E c p s)) = txs_db s
     \<and> submitted (snd (sweepAttempt E c p s)) = submitted s
     \<and> loaded (snd (sweepAttempt E c p s)) = loaded s"
  by (simp add: sweepAttempt_def cleanupAndConsolidateFunds_def getAllWallets_def
        call_cases try_catch_def seq_def bnd_def log_msg_def modify_def await_def
        stopOperation_def Let_def split: option.splits)

text \<open>
  Claim C5, amended. When an error escapes the body of the operation, \<^verbatim>\<open>executeOperation\<close>
  runs the sweep and then throws that same error. If from then on the Ledger, the Key
  Vault and the balance queries answer without an error (the transfers may still fail),
  and no wallet has key 0, then afterwards every wallet of the Ledger is \<open>completed\<close>, no
  wallet was added or removed, and the keys decrypted by the sweep are exactly those of
  the wallets that were not \<open>completed\<close>, each once and in Ledger order.
\<close>

theorem sweep_after_failure:
  assumes idle: "\<not> isRunning s"
    and fatal: "fst (operationBody E c p (beginRun s)) = Inl e"
    and ok: "\<forall>t \<ge> clock (snd (operationBody E c p (beginRun s))).
               a_db_fail (answers E t) = None \<and> a_vault_fail (answers E t) = None
               \<and> a_rpc_fail (answers E t) = None"
    and ids: "\<forall>w \<in> set (wallets_db (snd (operationBody E c p (beginRun s)))). w_id w \<noteq> 0"
  shows "fst (executeOperation E c p s) = Inl e
       \<and> list_all (\<lambda>w. w_status w = Completed) (wallets_db (snd (executeOperation E c p s)))
       \<and> map w_id (wallets_db (snd (executeOperation E c p s)))
           = map w_id (wallets_db (snd (operationBody E c p (beginRun s))))
       \<and> loaded (snd (executeOperation E c p s))
           = loaded (snd (operationBody E c p (beginRun s)))
             @ pendingKeys (wallets_db (snd (operationBody E c p (beginRun s))))"
proof -
  define s1 where "s1 = snd (operationBody E c p (beginRun s))"
  define s2 where "s2 = s1\<lparr>logs := logs s1 @ [(LvError, ''Operation failed'')]\<rparr>"
  define s3 where "s3 = snd (sweepAttempt E c p s2)"
  have ex: "executeOperation E c p s = (Inl e, endRun s3)"
    using executeOperation_failure[OF idle fatal] by (simp add: s1_def s2_def s3_def)
  have pre: "sweeping E (wallets_db s1) (loaded s1) s2"
    using ok by (simp add: sweeping_def healthy_def s1_def s2_def)
  have "sweepAttempt E c p s2 = (Inr (), s3)"
    using sweepAttempt_returns[of E c p s2] by (cases "sweepAttempt E c p s2") (auto simp: s3_def)
  from hoare_post[OF sw_sweepAttempt pre this] ids
  have post: "sweeping E (sweepLedger (wallets_db s1) (wallets_db s1))
                (loaded s1 @ pendingKeys (wallets_db s1)) s3"
    by (simp add: s1_def)
  have w: "wallets_db (endRun s3) = sweepLedger (wallets_db s1) (wallets_db s1)"
    and l: "loaded (endRun s3) = loaded s1 @ pendingKeys (wallets_db s1)"
    using post by (simp_all add: sweeping_def endRun_def stopWatchdog_def)
  show ?thesis
    using ex w l sweepLedger_completes[of "wallets_db s1"] sweepLedger_ids
    by (simp add: s1_def)
qed

theorem sweep_after_failure_witness:
  "fst (executeOperation ledgerFailsOnce sampleConfig ''pw'' earlierState) = Inl ''QuotaExceededError''
   \<and> list_all (\<lambda>w. w_status w = Completed)
        (wallets_db (snd (executeOperation ledgerFailsOnce sampleConfig ''pw'' earlierState)))
   \<and> map w_id (wallets_db (snd (executeOperation ledgerFailsOnce sampleConfig ''pw'' earlierState)))
       = map w_id (wallets_db (snd (operationBody ledgerFailsOnce sampleConfig ''pw''
                                      (beginRun earlierState))))
   \<and> loaded (snd (executeOperation ledgerFailsOnce sampleConfig ''pw'' earlierState))
       = loaded (snd (operationBody ledgerFailsOnce sampleConfig ''pw'' (beginRun earlierState)))
         @ pendingKeys (wallets_db (snd (operationBody ledgerFailsOnce sampleConfig ''pw''
                                           (beginRun earlierState))))"
proof -
  have body: "operationBody ledgerFailsOnce sampleConfig ''pw'' (beginRun earlierState)
      = (Inl ''QuotaExceededError'',
         snd (operationBody ledgerFailsOnce sampleConfig ''pw'' (beginRun earlierState)))
    \<and> clock (snd (operationBody ledgerFailsOnce sampleConfig ''pw'' (beginRun earlierState))) = 3
    \<and> map w_id (wallets_db (snd (operationBody ledgerFailsOnce sampleConfig ''pw''
                                    (beginRun earlierState)))) = [1]"
    by (simp add: ledgerFailsOnce_def run_defs cong: state_congs)
  have h0: "\<not> isRunning earlierState"
    by (simp add: earlierState_def idleState_def)
  have h1: "fst (operationBody ledgerFailsOnce sampleConfig ''pw'' (beginRun earlierState))
              = Inl ''QuotaExceededError''"
    using body by (metis fst_conv)
  have h2: "\<forall>t \<ge> clock (snd (operationBody ledgerFailsOnce sampleConfig ''pw''
                                  (beginRun earlierState))).
              a_db_fail (answers ledgerFailsOnce t) = None
              \<and> a_vault_fail (answers ledgerFailsOnce t) = None
              \<and> a_rpc_fail (answers ledgerFailsOnce t) = None"
    using body by (simp add: ledgerFailsOnce_def okAnswer_def quietEnv_def)
  have h3: "\<forall>w \<in> set (wallets_db (snd (operationBody ledgerFailsOnce sampleConfig ''pw''
                                         (beginRun earlierState)))). w_id w \<noteq> 0"
  proof
    fix w assume "w \<in> set (wallets_db (snd (operationBody ledgerFailsOnce sampleConfig ''pw''
                                         (beginRun earlierState))))"
    then have "w_id w \<in> set (map w_id (wallets_db (snd (operationBody ledgerFailsOnce
                  sampleConfig ''pw'' (beginRun earlierState)))))"
      by simp
    then show "w_id w \<noteq> 0" using body by simp
  qed
  show ?thesis by (rule sweep_after_failure[OF h0 h1 h2 h3])
qed

subsection \<open>Failures before the first wallet\<close>

lemma validateConfig_state: "validateConfig E c s = (fst (validateConfig E c s0), s)"
  by (simp add: validateConfig_def throw_def ret_def)

lemma early_body:
  assumes "fst (validateConfig E c s) = Inl e
       \<or> (fst (validateConfig E c s) = Inr () \<and> walletOfKey E (masterPrivateKey c) = Some master
          \<and> a_rpc_fail (answers E (clock s)) = None
          \<and> jlt (jsub (etherOf (int (a_wei (answers E (clock s)))))
                      (jmul (parseFloat (gasAmount c)) (Num (of_int (numWallets c)))))
                (jmul (Num (of_int (numWallets c))) (parseFloat (minPurchaseAmount c)))
          \<and> e = ''Insufficient funds for allocation'')"
  shows "fst (operationBody E c p (beginRun s)) = Inl e
       \<and> wallets_db (snd (operationBody E c p (beginRun s))) = wallets_db s
       \<and> txs_db (snd (operationBody E c p (beginRun s))) = txs_db s
       \<and> submitted (snd (operationBody E c p (beginRun s))) = submitted s
       \<and> loaded (snd (operationBody E c p (beginRun s))) = loaded s"
  using assms
proof
  assume v: "fst (validateConfig E c s) = Inl e"
  have "validateConfig E c s' = (Inl e, s')" for s'
    using validateConfig_state[of E c s' s] v by simp
  then show ?thesis
    by (simp add: operationBody_def seq_def bnd_def log_msg_def modify_def beginRun_def
          startWatchdog_def)
next
  assume a: "fst (validateConfig E c s) = Inr () \<and> walletOfKey E (masterPrivateKey c) = Some master
          \<and> a_rpc_fail (answers E (clock s)) = None
          \<and> jlt (jsub (etherOf (int (a_wei (answers E (clock s)))))
                      (jmul (parseFloat (gasAmount c)) (Num (of_int (numWallets c)))))
                (jmul (Num (of_int (numWallets c))) (parseFloat (minPurchaseAmount c)))
          \<and> e = ''Insufficient funds for allocation''"
  have v: "validateConfig E c s' = (Inr (), s')" for s'
    using validateConfig_state[of E c s' s] a by simp
  show ?thesis
    using a
    by (simp add: operationBody_def seq_def bnd_def log_msg_def modify_def beginRun_def
          startWatchdog_def v getBalance_def call_cases ret_def throw_def await_def
          stopOperation_def generateRandomAllocations_def Let_def)
qed

text \<open>
  Claim C3, amended. A configuration that fails validation, or a master balance below the
  required total, makes \<^verbatim>\<open>executeOperation\<close> throw that error, but only after the handler
  of the operation has run the sweep: the final state is the one the sweep leaves, started
  from the stores as they were. No wallet is added or removed; over an empty Ledger
  nothing is written, submitted or decrypted.
\<close>

theorem early_failure_runs_sweep:
  assumes idle: "\<not> isRunning s"
    and early: "fst (validateConfig E c s) = Inl e
       \<or> (fst (validateConfig E c s) = Inr () \<and> walletOfKey E (masterPrivateKey c) = Some master
          \<and> a_rpc_fail (answers E (clock s)) = None
          \<and> jlt (jsub (etherOf (int (a_wei (answers E (clock s)))))
                      (jmul (parseFloat (gasAmount c)) (Num (of_int (numWallets c)))))
                (jmul (Num (of_int (numWallets c))) (parseFloat (minPurchaseAmount c)))
          \<and> e = ''Insufficient funds for allocation'')"
  shows "fst (executeOperation E c p s) = Inl e
       \<and> (\<exists>s1. wallets_db s1 = wallets_db s \<and> txs_db s1 = txs_db s
                \<and> submitted s1 = submitted s \<and> loaded s1 = loaded s
                \<and> snd (executeOperation E c p s) = endRun (snd (sweepAttempt E c p s1)))
       \<and> map w_id (wallets_db (snd (executeOperation E c p s))) = map w_id (wallets_db s)
       \<and> (wallets_db s = [] \<longrightarrow>
            wallets_db (snd (executeOperation E c p s)) = []
            \<and> txs_db (snd (executeOperation E c p s)) = txs_db s
            \<and> submitted (snd (executeOperation E c p s)) = submitted s
            \<and> loaded (snd (executeOperation E c p s)) = loaded s)"
proof -
  define s1 where "s1 = (snd (operationBody E c p (beginRun s)))
      \<lparr>logs := logs (snd (operationBody E c p (beginRun s))) @ [(LvError, ''Operation failed'')]\<rparr>"
  from early_body[OF early, of p]
  have fatal: "fst (operationBody E c p (beginRun s)) = Inl e"
    and same: "wallets_db s1 = wallets_db s" "txs_db s1 = txs_db s"
      "submitted s1 = submitted s" "loaded s1 = loaded s"
    by (simp_all add: s1_def)
  have ex: "executeOperation E c p s = (Inl e, endRun (snd (sweepAttempt E c p s1)))"
    using executeOperation_failure[OF idle fatal] by (simp add: s1_def)
  have er: "wallets_db (endRun t) = wallets_db t" "txs_db (endRun t) = txs_db t"
      "submitted (endRun t) = submitted t" "loaded (endRun t) = loaded t" for t
    by (simp_all add: endRun_def stopWatchdog_def)
  have ids: "map w_id (wallets_db (snd (executeOperation E c p s))) = map w_id (wallets_db s)"
    using ex er sweepAttempt_ids[of E c p s1] same by simp
  have empty: "wallets_db s = [] \<longrightarrow>
            wallets_db (snd (executeOperation E c p s)) = []
            \<and> txs_db (snd (executeOperation E c p s)) = txs_db s
            \<and> submitted (snd (executeOperation E c p s)) = submitted s
            \<and> loaded (snd (executeOperation E c p s)) = loaded s"
    using ex er sweepAttempt_empty[of s1 E c p] same by simp
  have "\<exists>s1. wallets_db s1 = wallets_db s \<and> txs_db s1 = txs_db s
                \<and> submitted s1 = submitted s \<and> loaded s1 = loaded s
                \<and> snd (executeOperation E c p s) = endRun (snd (sweepAttempt E c p s1))"
    using ex same by (intro exI[of _ s1]) simp
  then show ?thesis using ex ids empty by simp
qed

theorem early_failure_runs_sweep_witness:
  "fst (executeOperation quietEnv (sampleConfig\<lparr>numWallets := 0\<rparr>) ''pw'' idleState)
     = Inl ''Number of wallets must be between 1 and 1000''
   \<and> wallets_db (snd (executeOperation quietEnv (sampleConfig\<lparr>numWallets := 0\<rparr>) ''pw'' idleState)) = []
   \<and> fst (executeOperation poorEnv sampleConfig ''pw'' idleState)
       = Inl ''Insufficient funds for allocation''
   \<and> wallets_db (snd (executeOperation poorEnv sampleConfig ''pw'' idleState)) = []"
proof -
  have idle: "\<not> isRunning idleState" and empty: "wallets_db idleState = []"
    by (simp_all add: idleState_def)
  have a: "fst (validateConfig quietEnv (sampleConfig\<lparr>numWallets := 0\<rparr>) idleState)
             = Inl ''Number of wallets must be between 1 and 1000''"
    by (simp add: run_defs)
  have b: "fst (validateConfig poorEnv sampleConfig idleState) = Inr ()
      \<and> walletOfKey poorEnv (masterPrivateKey sampleConfig) = Some ''0xmaster''
      \<and> a_rpc_fail (answers poorEnv (clock idleState)) = None
      \<and> jlt (jsub (etherOf (int (a_wei (answers poorEnv (clock idleState)))))
                  (jmul (parseFloat (gasAmount sampleConfig))
                        (Num (of_int (numWallets sampleConfig)))))
            (jmul (Num (of_int (numWallets sampleConfig)))
                  (parseFloat (minPurchaseAmount sampleConfig)))"
    by (simp add: poorEnv_def run_defs)
  show ?thesis
    using early_failure_runs_sweep[OF idle disjI1[OF a], of "''pw''"]
      early_failure_runs_sweep[OF idle, of poorEnv sampleConfig
        "''Insufficient funds for allocation''" "''0xmaster''" "''pw''"] b empty
    by simp
qed

subsection \<open>The run flag and the stop flag\<close>

text \<open>
  Claim C8. Called while an operation is running, \<^verbatim>\<open>executeOperation\<close> throws and leaves the
  whole state, run flag included, as it was; called otherwise, it ends with
  \<^verbatim>\<open>isOperationRunning()\<close> false, however it ends.
\<close>

theorem single_operation_guard:
  "(isRunning s \<longrightarrow>
      executeOperation E config password s = (Inl ''Operation is already running'', s))
   \<and> (\<not> isRunning s \<longrightarrow>
      \<not> isOperationRunning (snd (executeOperation E config password s)))"
  by (simp add: executeOperation_def try_finally_def endRun_def isOperationRunning_def
        split: prod.splits)

theorem single_operation_guard_witness:
  "executeOperation quietEnv sampleConfig ''pw'' (idleState\<lparr>isRunning := True\<rparr>)
     = (Inl ''Operation is already running'', idleState\<lparr>isRunning := True\<rparr>)
   \<and> \<not> isOperationRunning (snd (executeOperation quietEnv sampleConfig ''pw'' idleState))"
  using single_operation_guard[of "idleState\<lparr>isRunning := True\<rparr>" quietEnv sampleConfig "''pw''"]
    single_operation_guard[of idleState quietEnv sampleConfig "''pw''"]
  by (simp add: idleState_def)

lemma walletLoop_stopped: "shouldStop s \<Longrightarrow> walletLoop body ws s = (Inr (), s)"
  by (cases ws) simp_all

text \<open>
  Claim C7. \<^verbatim>\<open>stopOperation\<close> sets the flag of a running operation. With the flag set at the
  top of an iteration, the creation loop logs the stop and the operation returns at the
  check that follows the loop; the funding and the swap loops end and the operation
  returns at the check that follows them; the consolidation loop ends. None of these
  throws, and a body that returns makes \<^verbatim>\<open>executeOperation\<close> return with only the
  \<^verbatim>\<open>finally\<close> block run: the handler with the sweep is not entered.
\<close>

theorem cooperative_stop:
  "(isRunning s \<longrightarrow> shouldStop (stopOperation s))
   \<and> (shouldStop s \<longrightarrow>
        bnd (createLoop E password allocations (Suc k) i wallets)
            (afterCreate E config master gas) s
          = (Inr (), s\<lparr>logs := logs s @ [(LvWarning, ''Operation stopped by user'')],
                      isRunning := False\<rparr>))
   \<and> (shouldStop s \<longrightarrow>
        seq (walletLoop (fundStep E master gas) ws) (afterFund E config wallets) s
          = (Inr (), s\<lparr>isRunning := False\<rparr>))
   \<and> (shouldStop s \<longrightarrow>
        seq (walletLoop (swapStep E config) ws) (afterSwap E config wallets) s
          = (Inr (), s\<lparr>isRunning := False\<rparr>))
   \<and> (shouldStop s \<longrightarrow>
        seq (walletLoop (transferStep E config) ws)
            (log_msg LvSuccess ''Mass token buy operation completed successfully!'') s
          = (Inr (), s\<lparr>logs := logs s
                @ [(LvSuccess, ''Mass token buy operation completed successfully!'')]\<rparr>))
   \<and> (\<not> isRunning s \<and> fst (operationBody E config password (beginRun s)) = Inr ()
        \<longrightarrow> executeOperation E config password s
              = (Inr (), endRun (snd (operationBody E config password (beginRun s)))))"
  by (auto simp add: stopOperation_def walletLoop_stopped seq_def bnd_def ret_def log_msg_def
        modify_def afterCreate_def afterFund_def afterSwap_def stopReturn_def
        executeOperation_def try_finally_def try_catch_def split: prod.splits sum.splits)

theorem cooperative_stop_witness:
  "shouldStop (stopOperation stoppedState)
   \<and> bnd (createLoop quietEnv ''pw'' [] (Suc 0) 0 [firstWallet])
         (afterCreate quietEnv sampleConfig ''0xmaster'' (Num (1 / 100))) stoppedState
       = (Inr (), stoppedState\<lparr>logs := logs stoppedState
                    @ [(LvWarning, ''Operation stopped by user'')], isRunning := False\<rparr>)
   \<and> seq (walletLoop (fundStep quietEnv ''0xmaster'' (Num (1 / 100))) [firstWallet])
         (afterFund quietEnv sampleConfig [firstWallet]) stoppedState
       = (Inr (), stoppedState\<lparr>isRunning := False\<rparr>)
   \<and> seq (walletLoop (swapStep quietEnv sampleConfig) [firstWallet])
         (afterSwap quietEnv sampleConfig [firstWallet]) stoppedState
       = (Inr (), stoppedState\<lparr>isRunning := False\<rparr>)
   \<and> seq (walletLoop (transferStep quietEnv sampleConfig) [firstWallet])
         (log_msg LvSuccess ''Mass token buy operation completed successfully!'') stoppedState
       = (Inr (), stoppedState\<lparr>logs := logs stoppedState
             @ [(LvSuccess, ''Mass token buy operation completed successfully!'')]\<rparr>)
   \<and> executeOperation stopDuringCreate (sampleConfig\<lparr>numWallets := 2\<rparr>) ''pw'' idleState
       = (Inr (), endRun (snd (operationBody stopDuringCreate (sampleConfig\<lparr>numWallets := 2\<rparr>)
                                  ''pw'' (beginRun idleState))))
   \<and> runView (executeOperation stopDuringCreate (sampleConfig\<lparr>numWallets := 2\<rparr>) ''pw''
                 idleState)
       = (Inr (), [(1, Created)], [], [], [], False)"
proof -
  have r: "isRunning stoppedState" and st: "shouldStop stoppedState"
    by (simp_all add: stoppedState_def)
  have body: "\<not> isRunning idleState
      \<and> fst (operationBody stopDuringCreate (sampleConfig\<lparr>numWallets := 2\<rparr>) ''pw''
                (beginRun idleState)) = Inr ()"
    by (simp add: stopDuringCreate_def run_defs stopOperation_def cong: state_congs)
  have view: "runView (executeOperation stopDuringCreate (sampleConfig\<lparr>numWallets := 2\<rparr>) ''pw''
                 idleState)
       = (Inr (), [(1, Created)], [], [], [], False)"
    by (simp add: stopDuringCreate_def run_defs stopOperation_def cong: state_congs)
  note t = cooperative_stop[where s = stoppedState and E = quietEnv and password = "''pw''"
      and allocations = "[]" and k = 0 and i = 0 and wallets = "[firstWallet]"
      and config = sampleConfig and master = "''0xmaster''" and gas = "Num (1 / 100)"
      and ws = "[firstWallet]"]
  note u = cooperative_stop[where s = idleState and E = stopDuringCreate and password = "''pw''"
      and config = "sampleConfig\<lparr>numWallets := 2\<rparr>"]
  note v = u[THEN conjunct2, THEN conjunct2, THEN conjunct2, THEN conjunct2, THEN conjunct2,
      rule_format, OF body]
  show ?thesis
    using t r st v view by blast
qed

subsection \<open>transferBackFromWallet on an empty wallet\<close>

lemma un_await: "untouched T S W C s \<Longrightarrow> untouched T S W C (snd (await E s))"
  by (auto simp add: untouched_def await_def stopOperation_def Let_def)

lemma un_call:
  "hoare (untouched T S W C) (call E f)
     (\<lambda>x s. untouched T S W C s \<and> (\<exists>t. x = answers E t)) (\<lambda>_. untouched T S W C)"
  unfolding hoare_def call_cases using un_await by (auto split: option.splits)

lemma un_log: "hoare (untouched T S W C) (log_msg lv msg) (\<lambda>_. untouched T S W C) X"
  unfolding log_msg_def by (rule hoare_modify) (simp add: untouched_def)

lemma un_ret: "hoare (untouched T S W C) (ret x) (\<lambda>_. untouched T S W C) X"
  by (rule hoare_ret)

lemma un_throw: "hoare (untouched T S W C) (throw e) Q (\<lambda>_. untouched T S W C)"
  by (rule hoare_throw)

lemma un_getWallet:
  "hoare (untouched T S W C) (getWallet E k) (\<lambda>_. untouched T S W C) (\<lambda>_. untouched T S W C)"
  unfolding getWallet_def
  by (rule hoare_bnd[OF un_call]) (simp add: hoare_def)

lemma un_getConfig:
  "hoare (untouched T S W C) (getConfig E) (\<lambda>x s. untouched T S W C s \<and> x = C)
     (\<lambda>_. untouched T S W C)"
  unfolding getConfig_def
  by (rule hoare_bnd[OF un_call]) (simp add: hoare_def untouched_def)

lemma un_loadWallet:
  "hoare (untouched T S W C) (loadWallet E k p) (\<lambda>_. untouched T S W C) (\<lambda>_. untouched T S W C)"
  unfolding loadWallet_def
  by (rule hoare_seq[where R = "untouched T S W C"])
     (auto intro!: hoare_modify hoare_bnd[OF un_call] hoare_ret simp add: untouched_def)

lemma un_getTokenBalance:
  assumes "\<forall>t. a_wei (answers E t) = 0 \<and> a_units (answers E t) = 0"
  shows "hoare (untouched T S W C) (getTokenBalance E tok a)
           (\<lambda>x s. untouched T S W C s \<and> x = Num 0) (\<lambda>_. untouched T S W C)"
  unfolding getTokenBalance_def
  by (rule hoare_bnd[OF un_call]) (use assms in \<open>auto simp add: hoare_def ret_def unitsOf_def\<close>)

lemma un_getBalance:
  assumes "\<forall>t. a_wei (answers E t) = 0 \<and> a_units (answers E t) = 0"
  shows "hoare (untouched T S W C) (getBalance E a)
           (\<lambda>x s. untouched T S W C s \<and> x = 0) (\<lambda>_. untouched T S W C)"
  unfolding getBalance_def
  by (rule hoare_bnd[OF un_call]) (use assms in \<open>auto simp add: hoare_def ret_def\<close>)

lemma setStatus_same:
  "\<forall>w \<in> set W. w_id w = k \<longrightarrow> w_status w = st \<Longrightarrow> setStatus k st W = W"
  by (induction W) (simp_all add: setStatus_def)

lemma un_updateWallet:
  assumes "\<forall>w \<in> set W. w_id w = k \<longrightarrow> w_status w = st"
  shows "hoare (untouched T S W C) (updateWallet E k st) (\<lambda>_. untouched T S W C)
           (\<lambda>_. untouched T S W C)"
  unfolding updateWallet_def
  by (rule hoare_bnd[OF un_call])
     (use setStatus_same[OF assms] in \<open>simp add: hoare_def untouched_def\<close>)

lemma backTokens_zero:
  "\<not> jlt (parseFloat (minKeptTokens c)) (Num 0)
     \<Longrightarrow> backTokens E c w t (Num 0) = log_msg LvInfo ''Skipping token transfer''"
  by (cases "parseFloat (minKeptTokens c)") (simp_all add: backTokens_def jsub_def jgt_def)

lemma backETH_zero:
  "backETH E w t g 0 = log_msg LvInfo ''Skipping ETH transfer (balance too low)''"
  by (simp add: backETH_def)

lemma un_transferBack:
  assumes zero: "\<forall>t. a_wei (answers E t) = 0 \<and> a_units (answers E t) = 0"
    and cfg: "\<forall>c. C = Some c \<longrightarrow> \<not> jlt (parseFloat (minKeptTokens c)) (Num 0)"
    and compl: "\<forall>w \<in> set W. w_id w = walletId \<longrightarrow> w_status w = Completed"
  shows "hoare (untouched T S W C) (transferBackFromWallet E walletId p target g)
           (\<lambda>_. untouched T S W C) (\<lambda>_. untouched T S W C)"
proof -
  let ?U = "untouched T S W C"
  have tail: "hoare ?U (seq (updateWallet E walletId Completed)
                 (log_msg LvSuccess ''Transfer back completed'')) (\<lambda>_. ?U) (\<lambda>_. ?U)"
    by (intro inv_seq un_updateWallet[OF compl] un_log)
  have eth: "hoare (\<lambda>s. ?U s \<and> b = 0)
               (seq (backETH E wallet target g b)
                 (seq (updateWallet E walletId Completed)
                    (log_msg LvSuccess ''Transfer back completed''))) (\<lambda>_. ?U) (\<lambda>_. ?U)"
    for b wallet
    by (rule hoare_pure) (simp add: backETH_zero inv_seq un_log tail)
  have tokens: "hoare (\<lambda>s. ?U s \<and> tb = Num 0)
               (seq (backTokens E config wallet target tb)
                 (bnd (getBalance E wallet) (\<lambda>ethBalanceWei.
                  seq (backETH E wallet target g ethBalanceWei)
                 (seq (updateWallet E walletId Completed)
                      (log_msg LvSuccess ''Transfer back completed'')))))
               (\<lambda>_. ?U) (\<lambda>_. ?U)"
    if "C = Some config" for tb wallet config
  proof (rule hoare_pure)
    assume "tb = Num 0"
    then have "backTokens E config wallet target tb = log_msg LvInfo ''Skipping token transfer''"
      using cfg that by (simp add: backTokens_zero)
    then show "hoare ?U
               (seq (backTokens E config wallet target tb)
                 (bnd (getBalance E wallet) (\<lambda>ethBalanceWei.
                  seq (backETH E wallet target g ethBalanceWei)
                 (seq (updateWallet E walletId Completed)
                      (log_msg LvSuccess ''Transfer back completed'')))))
               (\<lambda>_. ?U) (\<lambda>_. ?U)"
      by (simp only:) (intro hoare_seq[OF un_log] hoare_bnd[OF un_getBalance[OF zero]] eth)
  qed
  have stored: "hoare (\<lambda>s. ?U s \<and> x = C)
       (case x of
          None \<Rightarrow> throw ''No configuration found. Cannot determine token address.''
        | Some config \<Rightarrow>
            bnd (getTokenBalance E (tokenAddress config) wallet) (\<lambda>tokenBalanceNum.
            seq (backTokens E config wallet target tokenBalanceNum)
           (bnd (getBalance E wallet) (\<lambda>ethBalanceWei.
            seq (backETH E wallet target g ethBalanceWei)
           (seq (updateWallet E walletId Completed)
                (log_msg LvSuccess ''Transfer back completed''))))))
       (\<lambda>_. ?U) (\<lambda>_. ?U)" for x wallet
  proof (rule hoare_pure)
    assume x: "x = C"
    show "hoare ?U
       (case x of
          None \<Rightarrow> throw ''No configuration found. Cannot determine token address.''
        | Some config \<Rightarrow>
            bnd (getTokenBalance E (tokenAddress config) wallet) (\<lambda>tokenBalanceNum.
            seq (backTokens E config wallet target tokenBalanceNum)
           (bnd (getBalance E wallet) (\<lambda>ethBalanceWei.
            seq (backETH E wallet target g ethBalanceWei)
           (seq (updateWallet E walletId Completed)
                (log_msg LvSuccess ''Transfer back completed''))))))
       (\<lambda>_. ?U) (\<lambda>_. ?U)"
    proof (cases x)
      case None
      then show ?thesis by (simp add: un_throw)
    next
      case (Some config)
      then have "C = Some config" using x by simp
      from tokens[OF this] show ?thesis
        using Some by (simp only: option.case) (rule hoare_bnd[OF un_getTokenBalance[OF zero]])
    qed
  qed
  have found: "hoare ?U
       (case f of
          None \<Rightarrow> throw ''Wallet not found''
        | Some walletInfo \<Rightarrow>
            bnd (loadWallet E (w_encryptedPrivateKey walletInfo) p) (\<lambda>wallet.
            seq (log_msg LvInfo ''Manually transferring from wallet'')
           (bnd (getConfig E) (\<lambda>stored.
              case stored of
                None \<Rightarrow> throw ''No configuration found. Cannot determine token address.''
              | Some config \<Rightarrow>
                  bnd (getTokenBalance E (tokenAddress config) wallet) (\<lambda>tokenBalanceNum.
                  seq (backTokens E config wallet target tokenBalanceNum)
                 (bnd (getBalance E wallet) (\<lambda>ethBalanceWei.
                  seq (backETH E wallet target g ethBalanceWei)
                 (seq (updateWallet E walletId Completed)
                      (log_msg LvSuccess ''Transfer back completed'')))))))))
       (\<lambda>_. ?U) (\<lambda>_. ?U)" for f
    by (cases f)
       (auto intro!: un_throw hoare_bnd[OF un_loadWallet] hoare_seq[OF un_log]
          hoare_bnd[OF un_getConfig] stored)
  have handler: "hoare ?U
       (seq (log_msg LvError ''Transfer back error'')
         (seq (try_catch (updateWallet E walletId Completed)
                 (\<lambda>dbError. log_msg LvError ''Failed to update wallet status''))
              (throw e))) (\<lambda>_. ?U) (\<lambda>_. ?U)" for e
    by (intro inv_seq inv_try_catch un_log un_updateWallet[OF compl] un_throw)
  show ?thesis
    unfolding transferBackFromWallet_def
    by (intro inv_try_catch hoare_bnd[OF un_getWallet] found handler)
qed

text \<open>
  Claim C9. When every balance query reports no ETH and no tokens, the stored
  \<^verbatim>\<open>minKeptTokens\<close> is not negative and the wallet is already \<open>completed\<close>,
  \<^verbatim>\<open>transferBackFromWallet\<close> saves no transaction record, submits nothing on chain and
  leaves the wallet store as it was.
\<close>

theorem transferBack_empty_wallet_noop:
  assumes zero: "\<forall>t. a_wei (answers E t) = 0 \<and> a_units (answers E t) = 0"
    and cfg: "\<forall>c. config_db s = Some c \<longrightarrow> \<not> jlt (parseFloat (minKeptTokens c)) (Num 0)"
    and compl: "\<forall>w \<in> set (wallets_db s). w_id w = walletId \<longrightarrow> w_status w = Completed"
  shows "txs_db (snd (transferBackFromWallet E walletId p target g s)) = txs_db s
       \<and> submitted (snd (transferBackFromWallet E walletId p target g s)) = submitted s
       \<and> wallets_db (snd (transferBackFromWallet E walletId p target g s)) = wallets_db s"
proof -
  obtain r s' where run: "transferBackFromWallet E walletId p target g s = (r, s')"
    by (cases "transferBackFromWallet E walletId p target g s") auto
  have pre: "untouched (txs_db s) (submitted s) (wallets_db s) (config_db s) s"
    by (simp add: untouched_def)
  from hoare_post[OF un_transferBack[OF zero cfg compl] pre run]
  have "untouched (txs_db s) (submitted s) (wallets_db s) (config_db s) s'"
    by (cases r) simp_all
  then show ?thesis using run by (simp add: untouched_def)
qed

theorem transferBack_empty_wallet_noop_witness:
  "txs_db (snd (transferBackFromWallet zeroEnv 1 ''pw'' ''0xtarget'' None completedState))
     = txs_db completedState
   \<and> submitted (snd (transferBackFromWallet zeroEnv 1 ''pw'' ''0xtarget'' None completedState))
     = submitted completedState
   \<and> wallets_db (snd (transferBackFromWallet zeroEnv 1 ''pw'' ''0xtarget'' None completedState))
     = wallets_db completedState"
proof -
  have zero: "\<forall>t. a_wei (answers zeroEnv t) = 0 \<and> a_units (answers zeroEnv t) = 0"
    by (simp add: zeroEnv_def quietEnv_def okAnswer_def)
  have cfg: "\<forall>c. config_db completedState = Some c
               \<longrightarrow> \<not> jlt (parseFloat (minKeptTokens c)) (Num 0)"
    by (simp add: completedState_def idleState_def sampleConfig_def parse_defs)
  have compl: "\<forall>w \<in> set (wallets_db completedState). w_id w = 1 \<longrightarrow> w_status w = Completed"
    by (simp add: completedState_def idleState_def)
  show ?thesis by (rule transferBack_empty_wallet_noop[OF zero cfg compl])
qed

subsection \<open>A funding transfer that throws\<close>

lemma await_fst: "fst (await E s) = Inr (answers E (clock s))"
  by (simp add: await_def Let_def)

lemma await_clock: "clock (snd (await E s)) = clock s + 1"
  by (simp add: await_def Let_def stopOperation_def)

lemma await_wallets: "wallets_db (snd (await E s)) = wallets_db s"
  by (simp add: await_def Let_def stopOperation_def)

lemma await_txs: "txs_db (snd (await E s)) = txs_db s"
  by (simp add: await_def Let_def stopOperation_def)

lemma await_submitted: "submitted (snd (await E s)) = submitted s"
  by (simp add: await_def Let_def stopOperation_def)

lemma delay_run: "delay E s = (Inr (), snd (await E s))"
  by (simp add: delay_def bnd_def await_def Let_def ret_def)

lemma swap_amount_gate:
  "p \<noteq> NaN \<Longrightarrow> x \<le> 0 \<Longrightarrow> jle (jmin p (jmax (Num 0) (etherOf x))) (Num 0)"
  by (cases p) (auto simp add: etherOf_def jmin_def jmax_def jle_def jgt_def
      divide_nonpos_pos)

lemma fundStep_rejected:
  assumes "isFinite (jadd gas (m_purchaseAmount w))"
    and "a_db_fail (answers E (clock s)) = None"
    and "a_chain_fail (answers E (clock s + 1)) = Some err"
    and "a_db_fail (answers E (clock s + 2)) = None"
    and "find (\<lambda>v. w_id v = m_dbId w) (wallets_db s) \<noteq> None"
  shows "fst (fundStep E master gas w s) = Inr ()
       \<and> wallets_db (snd (fundStep E master gas w s)) = setStatus (m_dbId w) Created (wallets_db s)"
  using assms
  apply (simp add: fundStep_def Let_def seq_def bnd_def try_catch_def log_msg_def modify_def
      saveTransaction_def transferETH_def submit_def updateWallet_def delay_def call_def
      ret_def throw_def split_beta await_fst await_clock await_wallets
      split: prod.splits sum.splits option.splits)
  done

lemma swapStep_unfunded:
  assumes "m_purchaseAmount w \<noteq> NaN"
    and "int (a_wei (answers E (clock s)))
           \<le> 500000 * gasPriceOf (answers E (clock s + 1)) * 150 div 100"
  shows "fst (swapStep E c w s) = Inr ()
       \<and> txs_db (snd (swapStep E c w s)) = txs_db s
       \<and> submitted (snd (swapStep E c w s)) = submitted s
       \<and> wallets_db (snd (swapStep E c w s)) = wallets_db s"
  using assms swap_amount_gate[of "m_purchaseAmount w"
      "int (a_wei (answers E (clock s)))
         - 500000 * gasPriceOf (answers E (clock s + 1)) * 150 div 100"]
  apply (simp add: swapStep_def Let_def seq_def bnd_def try_catch_def log_msg_def modify_def
      getBalance_def getGasPrice_def delay_run call_cases
      ret_def throw_def await_fst await_clock await_wallets await_txs await_submitted
      split: option.splits)
  done

text \<open>
  Claim C4, amended. When the funding transfer of a wallet throws (and the Ledger accepts
  the two writes around it), the status of the wallet in the Ledger is set to \<open>created\<close>
  and the loop goes on with the remaining wallets. The swap phase visits every wallet
  whatever its status: it attempts no swap for a wallet exactly because its balance does
  not exceed the gas reserve, as is the case for a wallet that the funding never reached.
\<close>

theorem funding_failure_regresses_status:
  "(isFinite (jadd gas (m_purchaseAmount w))
      \<and> a_db_fail (answers E (clock s)) = None
      \<and> a_chain_fail (answers E (clock s + 1)) = Some err
      \<and> a_db_fail (answers E (clock s + 2)) = None
      \<and> find (\<lambda>v. w_id v = m_dbId w) (wallets_db s) \<noteq> None
      \<and> \<not> shouldStop s
    \<longrightarrow> wallets_db (snd (fundStep E master gas w s))
          = setStatus (m_dbId w) Created (wallets_db s)
        \<and> walletLoop (fundStep E master gas) (w # ws) s
          = walletLoop (fundStep E master gas) ws (snd (fundStep E master gas w s)))
   \<and> (m_purchaseAmount v \<noteq> NaN
      \<and> int (a_wei (answers E' (clock s')))
           \<le> 500000 * gasPriceOf (answers E' (clock s' + 1)) * 150 div 100
    \<longrightarrow> fst (swapStep E' c v s') = Inr ()
        \<and> txs_db (snd (swapStep E' c v s')) = txs_db s'
        \<and> submitted (snd (swapStep E' c v s')) = submitted s'
        \<and> wallets_db (snd (swapStep E' c v s')) = wallets_db s')"
proof (intro conjI impI)
  assume h: "isFinite (jadd gas (m_purchaseAmount w))
      \<and> a_db_fail (answers E (clock s)) = None
      \<and> a_chain_fail (answers E (clock s + 1)) = Some err
      \<and> a_db_fail (answers E (clock s + 2)) = None
      \<and> find (\<lambda>v. w_id v = m_dbId w) (wallets_db s) \<noteq> None
      \<and> \<not> shouldStop s"
  then have r: "fst (fundStep E master gas w s) = Inr ()
       \<and> wallets_db (snd (fundStep E master gas w s)) = setStatus (m_dbId w) Created (wallets_db s)"
    by (intro fundStep_rejected) simp_all
  then show "wallets_db (snd (fundStep E master gas w s))
          = setStatus (m_dbId w) Created (wallets_db s)" by simp
  from r h show "walletLoop (fundStep E master gas) (w # ws) s
          = walletLoop (fundStep E master gas) ws (snd (fundStep E master gas w s))"
    by (cases "fundStep E master gas w s") simp
next
  assume h: "m_purchaseAmount v \<noteq> NaN
      \<and> int (a_wei (answers E' (clock s')))
           \<le> 500000 * gasPriceOf (answers E' (clock s' + 1)) * 150 div 100"
  then have r: "fst (swapStep E' c v s') = Inr ()
       \<and> txs_db (snd (swapStep E' c v s')) = txs_db s'
       \<and> submitted (snd (swapStep E' c v s')) = submitted s'
       \<and> wallets_db (snd (swapStep E' c v s')) = wallets_db s'"
    by (intro swapStep_unfunded) simp_all
  from r show "fst (swapStep E' c v s') = Inr ()" by simp
  from r show "txs_db (snd (swapStep E' c v s')) = txs_db s'" by simp
  from r show "submitted (snd (swapStep E' c v s')) = submitted s'" by simp
  from r show "wallets_db (snd (swapStep E' c v s')) = wallets_db s'" by simp
qed

theorem funding_failure_regresses_status_witness:
  "wallets_db (snd (fundStep fundingRejected ''0xmaster'' (Num (1 / 100)) firstWallet earlierState))
     = setStatus (m_dbId firstWallet) Created (wallets_db earlierState)
   \<and> walletLoop (fundStep fundingRejected ''0xmaster'' (Num (1 / 100))) [firstWallet] earlierState
     = walletLoop (fundStep fundingRejected ''0xmaster'' (Num (1 / 100))) []
         (snd (fundStep fundingRejected ''0xmaster'' (Num (1 / 100)) firstWallet earlierState))
   \<and> fst (swapStep zeroEnv sampleConfig firstWallet idleState) = Inr ()
   \<and> txs_db (snd (swapStep zeroEnv sampleConfig firstWallet idleState)) = txs_db idleState
   \<and> submitted (snd (swapStep zeroEnv sampleConfig firstWallet idleState)) = submitted idleState
   \<and> wallets_db (snd (swapStep zeroEnv sampleConfig firstWallet idleState)) = wallets_db idleState"
proof -
  have a: "isFinite (jadd (Num (1 / 100)) (m_purchaseAmount firstWallet))
      \<and> a_db_fail (answers fundingRejected (clock earlierState)) = None
      \<and> a_chain_fail (answers fundingRejected (clock earlierState + 1)) = Some ''timeout''
      \<and> a_db_fail (answers fundingRejected (clock earlierState + 2)) = None
      \<and> find (\<lambda>v. w_id v = m_dbId firstWallet) (wallets_db earlierState) \<noteq> None
      \<and> \<not> shouldStop earlierState"
    by (simp add: firstWallet_def fundingRejected_def earlierState_def idleState_def quietEnv_def
        okAnswer_def)
  have b: "m_purchaseAmount firstWallet \<noteq> NaN
      \<and> int (a_wei (answers zeroEnv (clock idleState)))
           \<le> 500000 * gasPriceOf (answers zeroEnv (clock idleState + 1)) * 150 div 100"
    by (simp add: firstWallet_def zeroEnv_def idleState_def quietEnv_def okAnswer_def
        gasPriceOf_def)
  note t = funding_failure_regresses_status[where gas = "Num (1 / 100)" and w = firstWallet
      and E = fundingRejected and s = earlierState and err = "''timeout''"
      and master = "''0xmaster''" and ws = "[]" and v = firstWallet and E' = zeroEnv
      and s' = idleState and c = sampleConfig]
  from t[THEN conjunct1, rule_format, OF a] t[THEN conjunct2, rule_format, OF b]
  show ?thesis by blast
qed

end
